theory Spec2Isabelle
  imports Main "HOL-Library.Word" "HOL-Library.Log_Nat"
begin

section \<open>Conversions between PostgreSQL datums and V8 values (plv8\_type.cc)\<close>

text \<open>
  The development embeds the converters of \<^verbatim>\<open>src/plv8_type.cc\<close>: each C++ function is a
  HOL function of the same name.  A C++ exception (\<^verbatim>\<open>js_error\<close>, \<^verbatim>\<open>pg_error\<close>) and a
  PostgreSQL \<^verbatim>\<open>ereport(ERROR)\<close> is a value \<open>Inl e\<close> of the result type; an out parameter
  (\<^verbatim>\<open>bool *isnull\<close>) is a component of the returned pair.  Functions of PostgreSQL and
  of V8 that the file calls but does not define are either written out from their
  documented behaviour (and marked so) or fields of the environment record \<open>pg_env\<close>.
  Preprocessor switches are fields of the record \<open>build_config\<close>.
\<close>

subsection \<open>Type identifiers\<close>

type_synonym Oid = "32 word"

text \<open>
  The type identifiers are the constants of PostgreSQL's \<^verbatim>\<open>catalog/pg_type.h\<close> (a header of
  the database, not of this repository).  The theorems below use only that they are
  pairwise different.
\<close>

definition InvalidOid :: Oid where "InvalidOid = 0"
definition BOOLOID :: Oid where "BOOLOID = 16"
definition BYTEAOID :: Oid where "BYTEAOID = 17"
definition INT8OID :: Oid where "INT8OID = 20"
definition INT2OID :: Oid where "INT2OID = 21"
definition INT4OID :: Oid where "INT4OID = 23"
definition TEXTOID :: Oid where "TEXTOID = 25"
definition OIDOID :: Oid where "OIDOID = 26"
definition JSONOID :: Oid where "JSONOID = 114"
definition XMLOID :: Oid where "XMLOID = 142"
definition FLOAT4OID :: Oid where "FLOAT4OID = 700"
definition FLOAT8OID :: Oid where "FLOAT8OID = 701"
definition BPCHAROID :: Oid where "BPCHAROID = 1042"
definition VARCHAROID :: Oid where "VARCHAROID = 1043"
definition DATEOID :: Oid where "DATEOID = 1082"
definition TIMESTAMPOID :: Oid where "TIMESTAMPOID = 1114"
definition TIMESTAMPTZOID :: Oid where "TIMESTAMPTZOID = 1184"
definition NUMERICOID :: Oid where "NUMERICOID = 1700"
definition RECORDOID :: Oid where "RECORDOID = 2249"
definition RECORDARRAYOID :: Oid where "RECORDARRAYOID = 2287"
definition JSONBOID :: Oid where "JSONBOID = 3802"

definition TYPCATEGORY_ARRAY :: char where "TYPCATEGORY_ARRAY = CHR ''A''"
definition TYPCATEGORY_COMPOSITE :: char where "TYPCATEGORY_COMPOSITE = CHR ''C''"

subsection \<open>Double precision numbers\<close>

text \<open>
  A C \<^verbatim>\<open>double\<close> (and the number inside a V8 Number or Date) is one of the IEEE 754
  binary64 values.  A finite value is the rational number it denotes; the negative zero
  is a value of its own.  \<open>Finite r\<close> stands for a double only when \<open>r\<close> is representable
  (\<open>fl_round 53 (-1074) r = r\<close>): every operation below returns such values.
\<close>

datatype double = Finite rat | MinusZero | PosInf | NegInf | NaN

definition round_half_even :: "rat \<Rightarrow> int" where
  "round_half_even q =
     (let f = \<lfloor>q\<rfloor>; r = q - of_int f
      in if r < 1 / 2 then f else if 1 / 2 < r then f + 1 else if even f then f else f + 1)"

text \<open>The integer \<open>e\<close> with \<open>2 powi e \<le> x < 2 powi (e + 1)\<close>, for a positive \<open>x\<close>.\<close>

definition floor_log2 :: "rat \<Rightarrow> int" where
  "floor_log2 x = (if 1 \<le> x then bitlen \<lfloor>x\<rfloor> - 1 else - bitlen (\<lceil>1 / x\<rceil> - 1))"

text \<open>
  Rounding to the nearest value with a significand of \<open>p\<close> bits, ties to even, where the
  unit in the last place is never below \<open>2 powi emin\<close> (the subnormal range).
\<close>

definition fl_round :: "nat \<Rightarrow> int \<Rightarrow> rat \<Rightarrow> rat" where
  "fl_round p emin x =
     (if x = 0 then 0
      else let e = max (floor_log2 \<bar>x\<bar> - (int p - 1)) emin
           in of_int (round_half_even (x / 2 powi e)) * 2 powi e)"

abbreviation dbl_round :: "rat \<Rightarrow> rat" where
  "dbl_round \<equiv> fl_round 53 (- 1074)"

definition to_double :: "rat \<Rightarrow> double" where
  "to_double x =
     (let r = fl_round 53 (- 1074) x
      in if 2 ^ 1024 \<le> r then PosInf else if r \<le> - (2 ^ 1024) then NegInf else Finite r)"

definition to_float :: "rat \<Rightarrow> double" where
  "to_float x =
     (let r = fl_round 24 (- 149) x
      in if 2 ^ 128 \<le> r then PosInf else if r \<le> - (2 ^ 128) then NegInf else Finite r)"

text \<open>
  The source combines a double only with positive finite constants (\<^verbatim>\<open>x / 1000.0\<close>,
  \<^verbatim>\<open>x * 1000.0\<close>, \<^verbatim>\<open>x + c\<close>, \<^verbatim>\<open>x - c\<close>).  Each of these is an increasing function \<open>f\<close>
  of \<open>x\<close>, computed exactly and rounded once; infinities and NaN pass through.  The sign
  of a zero result is not kept: no function below observes it.
\<close>

definition dbl_op :: "(rat \<Rightarrow> rat) \<Rightarrow> double \<Rightarrow> double" where
  "dbl_op f x =
     (case x of
        Finite r \<Rightarrow> to_double (f r)
      | MinusZero \<Rightarrow> to_double (f 0)
      | PosInf \<Rightarrow> PosInf
      | NegInf \<Rightarrow> NegInf
      | NaN \<Rightarrow> NaN)"

text \<open>Truncation towards zero, as a C cast from a floating point to an integer type.\<close>

definition trunc :: "rat \<Rightarrow> int" where
  "trunc r = (if 0 \<le> r then \<lfloor>r\<rfloor> else \<lceil>r\<rceil>)"

text \<open>The cast \<^verbatim>\<open>(float4) x\<close> and the widening of a \<^verbatim>\<open>float4\<close> are on doubles.\<close>

definition double_to_float :: "double \<Rightarrow> double" where
  "double_to_float x = (case x of Finite r \<Rightarrow> to_float r | _ \<Rightarrow> x)"

text \<open>
  The cast \<^verbatim>\<open>(int64) x\<close>.  C++ leaves it undefined when the truncated value is not an
  \<^verbatim>\<open>int64\<close> (also for NaN and the infinities): \<open>None\<close>.
\<close>

definition double_to_int64 :: "double \<Rightarrow> 64 word option" where
  "double_to_int64 x =
     (case x of
        Finite r \<Rightarrow>
          (if - (2 ^ 63) \<le> trunc r \<and> trunc r < 2 ^ 63 then Some (word_of_int (trunc r)) else None)
      | MinusZero \<Rightarrow> Some 0
      | _ \<Rightarrow> None)"

definition double_to_int32 :: "double \<Rightarrow> 32 word option" where
  "double_to_int32 x =
     (case x of
        Finite r \<Rightarrow>
          (if - (2 ^ 31) \<le> trunc r \<and> trunc r < 2 ^ 31 then Some (word_of_int (trunc r)) else None)
      | MinusZero \<Rightarrow> Some 0
      | _ \<Rightarrow> None)"

definition int64_to_double :: "64 word \<Rightarrow> double" where
  "int64_to_double w = to_double (of_int (sint w))"

definition int32_to_double :: "32 word \<Rightarrow> double" where
  "int32_to_double w = to_double (of_int (sint w))"

subsection \<open>Database values\<close>

text \<open>PostgreSQL's arbitrary precision \<^verbatim>\<open>numeric\<close>, by the number it denotes.\<close>

datatype numeric = Numeric rat | NumericNaN

text \<open>The in-memory JSONB tree that \<^verbatim>\<open>pushJsonbValue\<close> builds (\<^verbatim>\<open>utils/jsonb.h\<close>).\<close>

datatype JsonbValue =
    jbvNull
  | jbvString string
  | jbvNumeric numeric
  | jbvBool bool
  | jbvArray "JsonbValue list"
  | jbvObject "(string \<times> JsonbValue) list"

text \<open>
  A \<^verbatim>\<open>Datum\<close> is a machine word: the value itself for a pass-by-value type, a pointer
  otherwise.  The model keeps the word for the integer types, booleans, dates and integer
  timestamps, and the pointed-to value for the others.  An array is its header fields, its
  elements in storage order with their null flags (what \<^verbatim>\<open>deconstruct_array\<close> returns) and
  the bytes of its data area (what \<^verbatim>\<open>ARR_DATA_PTR\<close> points to).
\<close>

datatype datum =
    DatumWord "64 word"
  | DatumFloat4 double
  | DatumFloat8 double
  | DatumNumeric numeric
  | DatumText string
  | DatumBytea "8 word list"
  | DatumJsonb JsonbValue
  | DatumArray ArrayType
  | DatumTuple Oid int "(datum \<times> bool) list"
  | DatumOther Oid string
and ArrayType =
    ArrayType (ARR_NDIM: int) (ARR_DIMS: "int list") (ARR_LBOUND: "int list")
      (ARR_HASNULL: bool) (ARR_ELEMTYPE: Oid) (ARR_ELEMS: "(datum \<times> bool) list")
      (ARR_DATA: "8 word list")

text \<open>
  The external array kinds of \<^verbatim>\<open>plv8.h\<close>; \<open>kExternalNone\<close> is the value 0 of a descriptor
  that is no external array (\<^verbatim>\<open>if (type->ext_array)\<close> tests for it).
\<close>

datatype plv8_external_array_type =
    kExternalNone
  | kExternalByteArray
  | kExternalUnsignedByteArray
  | kExternalShortArray
  | kExternalUnsignedShortArray
  | kExternalIntArray
  | kExternalUnsignedIntArray
  | kExternalFloatArray
  | kExternalDoubleArray
  | kExternalInt64Array

text \<open>
  The type descriptor \<^verbatim>\<open>plv8_type\<close>.  Its two memoised function handles
  (\<^verbatim>\<open>fn_input\<close>, \<^verbatim>\<open>fn_output\<close>) only cache a catalog lookup and are left out: the input
  and output functions are looked up by \<open>typid\<close> in the environment.
\<close>

record plv8_type =
  typid :: Oid
  category :: char
  is_composite :: bool
  len :: int
  byval :: bool
  align :: char
  ext_array :: plv8_external_array_type

subsection \<open>Values of the scripting engine\<close>

datatype typed_array_kind =
    Int8Array | Uint8Array | Uint8ClampedArray | Int16Array | Uint16Array
  | Int32Array | Uint32Array | Float32Array | Float64Array | BigInt64Array | BigUint64Array

text \<open>
  A V8 value.  An object is the list of its own enumerable properties in insertion
  order, each key in its string form.  A typed array is its element kind, the bytes of its
  buffer, its number of elements and its internal field 0, where \<^verbatim>\<open>CreateExternalArray\<close>
  stores the datum the array was made from (\<open>None\<close> for an array made by a script).  The
  number of a \<open>JSDate\<close> is its time value.
\<close>

datatype js_value =
    JSUndefined
  | JSNull
  | JSBoolean bool
  | JSNumber double
  | JSBigInt int
  | JSString string
  | JSSymbol string
  | JSDate double
  | JSArray "js_value list"
  | JSObject "(string \<times> js_value) list"
  | JSTypedArray typed_array_kind "8 word list" nat "datum option"
  | JSArrayBuffer "8 word list"
  | JSFunction string

text \<open>
  The kind tests of \<^verbatim>\<open>v8::Value\<close>, from V8's API: a Number is an Int32 (a Uint32) when it
  is an integer of that range and not the negative zero; every Int32 and Uint32 is a
  Number; dates, arrays, typed arrays, buffers and functions are objects.
\<close>

definition is_int32 :: "double \<Rightarrow> bool" where
  "is_int32 d = (case d of Finite r \<Rightarrow> r = of_int \<lfloor>r\<rfloor> \<and> - (2 ^ 31) \<le> r \<and> r < 2 ^ 31 | _ \<Rightarrow> False)"

definition is_uint32 :: "double \<Rightarrow> bool" where
  "is_uint32 d = (case d of Finite r \<Rightarrow> r = of_int \<lfloor>r\<rfloor> \<and> 0 \<le> r \<and> r < 2 ^ 32 | _ \<Rightarrow> False)"

definition IsUndefined :: "js_value \<Rightarrow> bool" where
  "IsUndefined v = (case v of JSUndefined \<Rightarrow> True | _ \<Rightarrow> False)"

definition IsNull :: "js_value \<Rightarrow> bool" where
  "IsNull v = (case v of JSNull \<Rightarrow> True | _ \<Rightarrow> False)"

definition IsBoolean :: "js_value \<Rightarrow> bool" where
  "IsBoolean v = (case v of JSBoolean b \<Rightarrow> True | _ \<Rightarrow> False)"

definition IsNumber :: "js_value \<Rightarrow> bool" where
  "IsNumber v = (case v of JSNumber d \<Rightarrow> True | _ \<Rightarrow> False)"

definition IsInt32 :: "js_value \<Rightarrow> bool" where
  "IsInt32 v = (case v of JSNumber d \<Rightarrow> is_int32 d | _ \<Rightarrow> False)"

definition IsUint32 :: "js_value \<Rightarrow> bool" where
  "IsUint32 v = (case v of JSNumber d \<Rightarrow> is_uint32 d | _ \<Rightarrow> False)"

definition IsBigInt :: "js_value \<Rightarrow> bool" where
  "IsBigInt v = (case v of JSBigInt i \<Rightarrow> True | _ \<Rightarrow> False)"

definition IsString :: "js_value \<Rightarrow> bool" where
  "IsString v = (case v of JSString s \<Rightarrow> True | _ \<Rightarrow> False)"

definition IsDate :: "js_value \<Rightarrow> bool" where
  "IsDate v = (case v of JSDate d \<Rightarrow> True | _ \<Rightarrow> False)"

definition IsArray :: "js_value \<Rightarrow> bool" where
  "IsArray v = (case v of JSArray xs \<Rightarrow> True | _ \<Rightarrow> False)"

definition IsObject :: "js_value \<Rightarrow> bool" where
  "IsObject v =
     (case v of
        JSDate d \<Rightarrow> True
      | JSArray xs \<Rightarrow> True
      | JSObject ps \<Rightarrow> True
      | JSTypedArray k b n f \<Rightarrow> True
      | JSArrayBuffer b \<Rightarrow> True
      | JSFunction s \<Rightarrow> True
      | _ \<Rightarrow> False)"

definition IsTypedArray :: "js_value \<Rightarrow> bool" where
  "IsTypedArray v = (case v of JSTypedArray k b n f \<Rightarrow> True | _ \<Rightarrow> False)"

definition IsArrayBuffer :: "js_value \<Rightarrow> bool" where
  "IsArrayBuffer v = (case v of JSArrayBuffer b \<Rightarrow> True | _ \<Rightarrow> False)"

definition typed_kind_in :: "js_value \<Rightarrow> typed_array_kind list \<Rightarrow> bool" where
  "typed_kind_in v ks = (case v of JSTypedArray k b n f \<Rightarrow> k \<in> set ks | _ \<Rightarrow> False)"

subsection \<open>Type inference (\<^verbatim>\<open>inferred_datum_type\<close>)\<close>

definition inferred_datum_type :: "js_value \<Rightarrow> Oid" where
  "inferred_datum_type v =
     (if IsUndefined v \<or> IsNull v then TEXTOID
      else if IsBoolean v then BOOLOID
      else if IsInt32 v then INT4OID
      else if IsUint32 v then INT8OID
      else if IsBigInt v then INT8OID
      else if IsNumber v then FLOAT8OID
      else if IsString v then TEXTOID
      else if IsDate v then TIMESTAMPOID
      else InvalidOid)"

subsection \<open>Errors, build switches, environment\<close>

text \<open>
  \<open>js_error\<close> and \<open>pg_error\<close> are the two C++ exceptions of plv8 (the second carries
  the message of the database error it wraps).  \<open>ereport_ERROR\<close> is a database error raised
  outside any \<^verbatim>\<open>PG_TRY\<close> block.  \<open>undefined_behaviour\<close> marks an execution the C++ standard
  leaves undefined (a write or a read outside a buffer, a cast out of range),
  \<open>process_abort\<close> the end of the process inside the scripting engine, \<open>bad_datum\<close> a
  datum whose representation does not fit the type descriptor it is decoded under, and
  \<open>empty_handle\<close> the return of an empty \<^verbatim>\<open>Local\<close> handle (\<^verbatim>\<open>return {}\<close>).
\<close>

datatype error =
    js_error string
  | pg_error string
  | ereport_ERROR string
  | undefined_behaviour string
  | process_abort string
  | bad_datum
  | empty_handle

type_synonym 'a result = "error + 'a"

definition bind :: "'a result \<Rightarrow> ('a \<Rightarrow> 'b result) \<Rightarrow> 'b result" where
  "bind r f = (case r of Inl e \<Rightarrow> Inl e | Inr x \<Rightarrow> f x)"

text \<open>The first error of a list of results, or all the values in order.\<close>

fun collect :: "'a result list \<Rightarrow> 'a list result" where
  "collect [] = Inr []"
| "collect (r # rs) =
     (case r of
        Inl e \<Rightarrow> Inl e
      | Inr x \<Rightarrow> (case collect rs of Inl e \<Rightarrow> Inl e | Inr xs \<Rightarrow> Inr (x # xs)))"

text \<open>A call inside \<^verbatim>\<open>PG_TRY\<close> whose handler throws \<^verbatim>\<open>pg_error\<close>, and a direct call.\<close>

definition pg_try :: "string + 'a \<Rightarrow> 'a result" where
  "pg_try r = (case r of Inl m \<Rightarrow> Inl (pg_error m) | Inr x \<Rightarrow> Inr x)"

definition direct_call :: "string + 'a \<Rightarrow> 'a result" where
  "direct_call r = (case r of Inl m \<Rightarrow> Inl (ereport_ERROR m) | Inr x \<Rightarrow> Inr x)"

record build_config =
  PG_VERSION_NUM :: nat
  JSONB_DIRECT_CONVERSION :: bool
  BIGINT_GRACEFUL :: bool
  CHECK_INTEGER_OVERFLOW :: bool
  HAVE_INT64_TIMESTAMP :: bool

type_synonym TupleDesc = "(string \<times> Oid) list"

text \<open>
  What the file calls and neither defines nor fixes by a formula: catalog lookups, the
  input and output functions of the types, encoding conversion and the numeric
  conversions of the database (\<open>Inl m\<close> is an error with message \<open>m\<close>); the layout of
  array elements in memory; number formatting, \<^verbatim>\<open>JSON.stringify\<close>, \<^verbatim>\<open>JSON.parse\<close> and
  typed array reads of the scripting engine; \<^verbatim>\<open>strftime\<close> over \<^verbatim>\<open>gmtime\<close>; and the class
  \<^verbatim>\<open>Converter\<close> of plv8 (composite values), which is not part of this file.
\<close>

record pg_env =
  GetDatabaseEncoding :: nat
  encoding_conversion :: "string \<Rightarrow> nat \<Rightarrow> nat \<Rightarrow> string + string"
  InputFunctionCall :: "Oid \<Rightarrow> string option \<Rightarrow> string + datum"
  OutputFunctionCall :: "Oid \<Rightarrow> datum \<Rightarrow> string + string"
  numeric_in :: "string \<Rightarrow> string + numeric"
  float8_numeric :: "double \<Rightarrow> string + numeric"
  numeric_float8 :: "numeric \<Rightarrow> string + double"
  jsonb_in :: "string \<Rightarrow> string + JsonbValue"
  lookup_rowtype_tupdesc :: "Oid \<Rightarrow> int \<Rightarrow> string + TupleDesc"
  get_type_category_preferred :: "Oid \<Rightarrow> char"
  get_typlenbyvalalign :: "Oid \<Rightarrow> int \<times> bool \<times> char"
  array_data_bytes :: "Oid \<Rightarrow> (datum \<times> bool) list \<Rightarrow> 8 word list"
  NumberToString :: "double \<Rightarrow> string"
  ObjectToString :: "js_value \<Rightarrow> string option"
  JSON_Stringify :: "js_value \<Rightarrow> js_value result"
  JSON_Parse :: "js_value \<Rightarrow> js_value result"
  typed_array_numbers :: "typed_array_kind \<Rightarrow> 8 word list \<Rightarrow> nat \<Rightarrow> double list"
  strftime_gmtime :: "int \<Rightarrow> string"
  Converter_ToDatum :: "TupleDesc \<Rightarrow> js_value \<Rightarrow> datum result"
  Converter_ToValue :: "TupleDesc \<Rightarrow> datum \<Rightarrow> js_value result"

subsection \<open>Reading a V8 value\<close>

text \<open>
  The numeric conversions of \<^verbatim>\<open>v8::Value\<close>, from V8's API and the ECMAScript operations
  they implement, on the double of a Number: \<^verbatim>\<open>Uint32Value\<close> and \<^verbatim>\<open>Int32Value\<close> truncate and
  reduce modulo \<open>2 ^ 32\<close> (NaN and the infinities give 0), \<^verbatim>\<open>IntegerValue\<close> truncates and
  saturates at the bounds of \<^verbatim>\<open>int64_t\<close> (NaN gives 0), \<^verbatim>\<open>BigInt::Int64Value\<close> reduces modulo
  \<open>2 ^ 64\<close>.
\<close>

definition Uint32Value :: "double \<Rightarrow> 32 word" where
  "Uint32Value d = (case d of Finite r \<Rightarrow> word_of_int (trunc r) | _ \<Rightarrow> 0)"

definition Int32Value :: "double \<Rightarrow> 32 word" where
  "Int32Value d = (case d of Finite r \<Rightarrow> word_of_int (trunc r) | _ \<Rightarrow> 0)"

definition IntegerValue :: "double \<Rightarrow> 64 word" where
  "IntegerValue d =
     (case d of
        Finite r \<Rightarrow>
          (if 2 ^ 63 \<le> r then word_of_int (2 ^ 63 - 1)
           else if r \<le> - (2 ^ 63) then word_of_int (- (2 ^ 63))
           else word_of_int (trunc r))
      | PosInf \<Rightarrow> word_of_int (2 ^ 63 - 1)
      | NegInf \<Rightarrow> word_of_int (- (2 ^ 63))
      | _ \<Rightarrow> 0)"

definition BigInt_Int64Value :: "int \<Rightarrow> 64 word" where
  "BigInt_Int64Value i = word_of_int i"

text \<open>\<^verbatim>\<open>NumberValue\<close> of a Number is its double, of a Date its time value.\<close>

definition NumberValue :: "js_value \<Rightarrow> double" where
  "NumberValue v = (case v of JSNumber d \<Rightarrow> d | JSDate t \<Rightarrow> t | _ \<Rightarrow> NaN)"

definition BooleanValue :: "js_value \<Rightarrow> bool" where
  "BooleanValue v = (case v of JSBoolean b \<Rightarrow> b | _ \<Rightarrow> False)"

text \<open>Decimal digits, as \<^verbatim>\<open>sprintf\<close> prints an integer with \<^verbatim>\<open>%ld\<close> and \<^verbatim>\<open>%03d\<close>.\<close>

definition digit_char :: "nat \<Rightarrow> char" where
  "digit_char n = ''0123456789'' ! n"

fun nat_to_string :: "nat \<Rightarrow> string" where
  "nat_to_string n =
     (if n < 10 then [digit_char n] else nat_to_string (n div 10) @ [digit_char (n mod 10)])"

declare nat_to_string.simps [simp del]

definition int_to_string :: "int \<Rightarrow> string" where
  "int_to_string i = (if i < 0 then CHR ''-'' # nat_to_string (nat (- i)) else nat_to_string (nat i))"

definition sprintf_03d :: "int \<Rightarrow> string" where
  "sprintf_03d i =
     (if i < 0 then CHR ''-'' # replicate (2 - length (nat_to_string (nat (- i)))) CHR ''0''
                     @ nat_to_string (nat (- i))
      else replicate (3 - length (nat_to_string (nat i))) CHR ''0'' @ nat_to_string (nat i))"

text \<open>
  Reading \<open>n\<close> bytes from a buffer that holds the string \<open>s\<close> and its terminating zero
  byte: beyond the terminator the bytes are not the program's to read.
\<close>

definition read_bytes :: "string \<Rightarrow> nat \<Rightarrow> string result" where
  "read_bytes s n =
     (if n \<le> length s then Inr (take n s)
      else if n = Suc (length s) then Inr (s @ [char_of (0 :: nat)])
      else Inl (undefined_behaviour ''read past the end of a string''))"

text \<open>
  \<^verbatim>\<open>String::Utf8Value\<close> of a value: the UTF-8 bytes of its ECMAScript string form, or no
  string (\<^verbatim>\<open>*utf8 == NULL\<close>) when the conversion throws, as it does for a Symbol.
\<close>

definition Utf8Value :: "pg_env \<Rightarrow> js_value \<Rightarrow> string option" where
  "Utf8Value env v =
     (case v of
        JSUndefined \<Rightarrow> Some ''undefined''
      | JSNull \<Rightarrow> Some ''null''
      | JSBoolean b \<Rightarrow> Some (if b then ''true'' else ''false'')
      | JSNumber d \<Rightarrow> Some (NumberToString env d)
      | JSBigInt i \<Rightarrow> Some (int_to_string i)
      | JSString s \<Rightarrow> Some s
      | JSSymbol n \<Rightarrow> None
      | _ \<Rightarrow> ObjectToString env v)"

subsection \<open>Text encoding (\<^verbatim>\<open>ToString\<close>, \<^verbatim>\<open>ToCString\<close>, \<^verbatim>\<open>ToCStringCopy\<close>)\<close>

definition PG_UTF8 :: nat where "PG_UTF8 = 6"

text \<open>
  PostgreSQL's \<^verbatim>\<open>pg_do_encoding_conversion\<close> returns its argument when the two encodings
  are the same or the string is empty, and converts (or raises an error) otherwise.
\<close>

definition pg_do_encoding_conversion :: "pg_env \<Rightarrow> string \<Rightarrow> nat \<Rightarrow> nat \<Rightarrow> string + string" where
  "pg_do_encoding_conversion env s src dest =
     (if s = [] \<or> src = dest then Inr s else encoding_conversion env s src dest)"

text \<open>\<^verbatim>\<open>ToString(const char *str, int len, int encoding)\<close>, for a string that is not NULL.\<close>

definition ToString_cstr :: "pg_env \<Rightarrow> string \<Rightarrow> js_value result" where
  "ToString_cstr env s =
     bind (pg_try (pg_do_encoding_conversion env s (GetDatabaseEncoding env) PG_UTF8))
       (\<lambda>utf8. Inr (JSString utf8))"

text \<open>\<^verbatim>\<open>ToString(Datum value, plv8_type *type)\<close>: the output function of the type.\<close>

definition ToString_datum :: "pg_env \<Rightarrow> datum \<Rightarrow> plv8_type \<Rightarrow> js_value result" where
  "ToString_datum env d t =
     bind (pg_try (OutputFunctionCall env (typid t) d))
       (\<lambda>s. if GetDatabaseEncoding env = PG_UTF8 then Inr (JSString s) else ToString_cstr env s)"

definition ToCString :: "pg_env \<Rightarrow> string option \<Rightarrow> string option result" where
  "ToCString env utf8 =
     (case utf8 of
        None \<Rightarrow> Inr None
      | Some s \<Rightarrow>
          if GetDatabaseEncoding env = PG_UTF8 then Inr (Some s)
          else bind (pg_try (pg_do_encoding_conversion env s PG_UTF8 (GetDatabaseEncoding env)))
                 (\<lambda>c. Inr (Some c)))"

definition ToCStringCopy :: "pg_env \<Rightarrow> string option \<Rightarrow> string option result" where
  "ToCStringCopy env utf8 =
     (case utf8 of
        None \<Rightarrow> Inr None
      | Some s \<Rightarrow>
          bind (pg_try (pg_do_encoding_conversion env s PG_UTF8 (GetDatabaseEncoding env)))
            (\<lambda>c. Inr (Some c)))"

text \<open>The constructor \<^verbatim>\<open>CString::CString(value)\<close>: the string form in the database encoding.\<close>

definition CString :: "pg_env \<Rightarrow> js_value \<Rightarrow> string option result" where
  "CString env v = ToCString env (Utf8Value env v)"

subsection \<open>Dates and timestamps\<close>

text \<open>
  Modelled from the spec: the Julian day numbers \<^verbatim>\<open>POSTGRES_EPOCH_JDATE\<close> (2000-01-01) and
  \<^verbatim>\<open>UNIX_EPOCH_JDATE\<close> (1970-01-01) and the day lengths are macros of PostgreSQL's
  \<^verbatim>\<open>datatype/timestamp.h\<close>; the spec fixes their difference as the number of days between
  the two dates.
\<close>

definition POSTGRES_EPOCH_JDATE :: int where "POSTGRES_EPOCH_JDATE = 2451545"
definition UNIX_EPOCH_JDATE :: int where "UNIX_EPOCH_JDATE = 2440588"
definition USECS_PER_DAY :: int where "USECS_PER_DAY = 86400000000"
definition SECS_PER_DAY :: int where "SECS_PER_DAY = 86400"

text \<open>
  The double \<^verbatim>\<open>(POSTGRES_EPOCH_JDATE - UNIX_EPOCH_JDATE) * 86400000.0\<close>: an \<^verbatim>\<open>int\<close> times a
  double constant.
\<close>

definition epoch_shift :: double where
  "epoch_shift = dbl_op (\<lambda>r. r * 86400000) (to_double (of_int (POSTGRES_EPOCH_JDATE - UNIX_EPOCH_JDATE)))"

definition dbl_add :: "double \<Rightarrow> double \<Rightarrow> double" where
  "dbl_add x c = (case c of Finite k \<Rightarrow> dbl_op (\<lambda>r. r + k) x | _ \<Rightarrow> NaN)"

definition dbl_sub :: "double \<Rightarrow> double \<Rightarrow> double" where
  "dbl_sub x c = (case c of Finite k \<Rightarrow> dbl_op (\<lambda>r. r - k) x | _ \<Rightarrow> NaN)"

text \<open>
  A timestamp is an \<^verbatim>\<open>int64\<close> of microseconds when \<^verbatim>\<open>HAVE_INT64_TIMESTAMP\<close> is defined and
  a double of seconds otherwise; \<open>DatumGetTimestampTz\<close> reads it from the datum.
\<close>

datatype TimestampTz = TimestampInt "64 word" | TimestampFloat double

definition DatumGetTimestampTz :: "build_config \<Rightarrow> datum \<Rightarrow> TimestampTz option" where
  "DatumGetTimestampTz cfg d =
     (case d of
        DatumWord w \<Rightarrow> if HAVE_INT64_TIMESTAMP cfg then Some (TimestampInt w) else None
      | DatumFloat8 x \<Rightarrow> if HAVE_INT64_TIMESTAMP cfg then None else Some (TimestampFloat x)
      | _ \<Rightarrow> None)"

definition TimestampTzToEpoch :: "TimestampTz \<Rightarrow> double" where
  "TimestampTzToEpoch tm =
     (let epoch = (case tm of
                     TimestampInt w \<Rightarrow> dbl_op (\<lambda>r. r / 1000) (int64_to_double w)
                   | TimestampFloat x \<Rightarrow> dbl_op (\<lambda>r. r * 1000) x)
      in dbl_add epoch epoch_shift)"

definition EpochToTimestampTz :: "build_config \<Rightarrow> double \<Rightarrow> datum result" where
  "EpochToTimestampTz cfg epoch0 =
     (let epoch = dbl_sub epoch0 epoch_shift
      in if HAVE_INT64_TIMESTAMP cfg then
           (case double_to_int64 epoch of
              None \<Rightarrow> Inl (undefined_behaviour ''(int64) epoch'')
            | Some w \<Rightarrow>
                if - (2 ^ 63) \<le> sint w * 1000 \<and> sint w * 1000 < 2 ^ 63
                then Inr (DatumWord (w * 1000))
                else Inl (undefined_behaviour ''(int64) epoch * 1000''))
         else Inr (DatumFloat8 (dbl_op (\<lambda>r. r / 1000) epoch)))"

definition DateToEpoch :: "build_config \<Rightarrow> 32 word \<Rightarrow> double" where
  "DateToEpoch cfg date =
     (let epoch =
            (if HAVE_INT64_TIMESTAMP cfg
             then dbl_op (\<lambda>r. r / 1000)
                    (dbl_op (\<lambda>r. r * of_int USECS_PER_DAY) (int32_to_double date))
             else dbl_op (\<lambda>r. r * 1000)
                    (dbl_op (\<lambda>r. r * of_int SECS_PER_DAY) (int32_to_double date)))
      in dbl_add epoch epoch_shift)"

definition EpochToDate :: "build_config \<Rightarrow> double \<Rightarrow> datum result" where
  "EpochToDate cfg epoch0 =
     (let epoch1 = dbl_sub epoch0 epoch_shift;
          epoch =
            (if HAVE_INT64_TIMESTAMP cfg
             then dbl_op (\<lambda>r. r / of_int USECS_PER_DAY) (dbl_op (\<lambda>r. r * 1000) epoch1)
             else dbl_op (\<lambda>r. r / of_int SECS_PER_DAY) (dbl_op (\<lambda>r. r / 1000) epoch1))
      in case double_to_int32 epoch of
           None \<Rightarrow> Inl (undefined_behaviour ''(DateADT) epoch'')
         | Some w \<Rightarrow> Inr (DatumWord (scast w)))"

text \<open>
  \<^verbatim>\<open>Date::New\<close> of V8 stores the time value \<open>TimeClip t\<close> of ECMAScript: NaN for a \<open>t\<close> that
  is not finite or beyond 8.64e15 milliseconds, and \<open>t\<close> truncated to an integer otherwise.
\<close>

definition TimeClip :: "double \<Rightarrow> double" where
  "TimeClip t =
     (case t of
        Finite r \<Rightarrow> if \<bar>r\<bar> \<le> 8640000000000000 then Finite (of_int (trunc r)) else NaN
      | MinusZero \<Rightarrow> Finite 0
      | _ \<Rightarrow> NaN)"

definition Date_New :: "double \<Rightarrow> js_value" where
  "Date_New t = JSDate (TimeClip t)"

subsection \<open>Datum macros\<close>

text \<open>
  \<^verbatim>\<open>Int16GetDatum\<close> and \<^verbatim>\<open>Int32GetDatum\<close> extend the sign to the width of a datum;
  \<^verbatim>\<open>DatumGetInt16\<close>, \<^verbatim>\<open>DatumGetInt32\<close> and \<^verbatim>\<open>DatumGetObjectId\<close> keep the low bits;
  \<^verbatim>\<open>DatumGetBool\<close> tests for a word that is not zero.
\<close>

definition BoolGetDatum :: "bool \<Rightarrow> datum" where
  "BoolGetDatum b = DatumWord (if b then 1 else 0)"

definition ObjectIdGetDatum :: "32 word \<Rightarrow> datum" where
  "ObjectIdGetDatum w = DatumWord (ucast w)"

definition Int16GetDatum :: "16 word \<Rightarrow> datum" where
  "Int16GetDatum w = DatumWord (scast w)"

definition Int32GetDatum :: "32 word \<Rightarrow> datum" where
  "Int32GetDatum w = DatumWord (scast w)"

definition Int64GetDatum :: "64 word \<Rightarrow> datum" where
  "Int64GetDatum w = DatumWord w"

definition with_word :: "datum \<Rightarrow> (64 word \<Rightarrow> 'a result) \<Rightarrow> 'a result" where
  "with_word d f = (case d of DatumWord w \<Rightarrow> f w | _ \<Rightarrow> Inl bad_datum)"

text \<open>
  The database functions \<^verbatim>\<open>int82\<close> and \<^verbatim>\<open>int84\<close> narrow an \<^verbatim>\<open>int8\<close> and raise an error
  for a value out of range; \<^verbatim>\<open>int4_numeric\<close> and \<^verbatim>\<open>int8_numeric\<close> are exact.
\<close>

definition int82 :: "64 word \<Rightarrow> datum result" where
  "int82 w =
     (if sint w < - (2 ^ 15) \<or> 2 ^ 15 \<le> sint w then Inl (ereport_ERROR ''smallint out of range'')
      else Inr (Int16GetDatum (ucast w)))"

definition int84 :: "64 word \<Rightarrow> datum result" where
  "int84 w =
     (if sint w < - (2 ^ 31) \<or> 2 ^ 31 \<le> sint w then Inl (ereport_ERROR ''integer out of range'')
      else Inr (Int32GetDatum (ucast w)))"

definition int4_numeric :: "32 word \<Rightarrow> numeric" where
  "int4_numeric w = Numeric (of_int (sint w))"

definition int8_numeric :: "64 word \<Rightarrow> numeric" where
  "int8_numeric w = Numeric (of_int (sint w))"

subsection \<open>Arrays of the database\<close>

text \<open>
  From PostgreSQL's \<^verbatim>\<open>utils/array.h\<close> and \<^verbatim>\<open>arrayfuncs.c\<close>: the header of an array takes
  16 bytes and 8 more for every dimension, rounded up to a multiple of 8, plus the null
  bitmap if there is one; the data area follows.  \<^verbatim>\<open>construct_md_array\<close> (as of
  PostgreSQL 11) returns the empty array, which has no dimension, when the dimensions hold
  no element (``if ndims <= 0 or any dims[i] == 0, return empty array''), and an array of
  the given dimensions otherwise, with a null bitmap when an element is null.
  \<^verbatim>\<open>deconstruct_array\<close> returns the elements and their null flags in storage order.
\<close>

definition MAXALIGN :: "int \<Rightarrow> int" where
  "MAXALIGN n = ((n + 7) div 8) * 8"

definition ARR_OVERHEAD_NONULLS :: "int \<Rightarrow> int" where
  "ARR_OVERHEAD_NONULLS ndims = MAXALIGN (16 + 2 * 4 * ndims)"

definition ARR_OVERHEAD_WITHNULLS :: "int \<Rightarrow> int \<Rightarrow> int" where
  "ARR_OVERHEAD_WITHNULLS ndims nitems = MAXALIGN (16 + 2 * 4 * ndims + (nitems + 7) div 8)"

definition ARR_SIZE :: "ArrayType \<Rightarrow> int" where
  "ARR_SIZE a =
     (if ARR_HASNULL a then ARR_OVERHEAD_WITHNULLS (ARR_NDIM a) (int (length (ARR_ELEMS a)))
      else ARR_OVERHEAD_NONULLS (ARR_NDIM a))
     + int (length (ARR_DATA a))"

definition ArrayGetNItems :: "int \<Rightarrow> int list \<Rightarrow> int" where
  "ArrayGetNItems ndim dims = (if ndim \<le> 0 then 0 else prod_list dims)"

definition construct_empty_array :: "Oid \<Rightarrow> ArrayType" where
  "construct_empty_array elmtype = ArrayType 0 [] [] False elmtype [] []"

definition construct_md_array ::
  "pg_env \<Rightarrow> (datum \<times> bool) list \<Rightarrow> int \<Rightarrow> int list \<Rightarrow> int list \<Rightarrow> Oid \<Rightarrow> ArrayType" where
  "construct_md_array env elems ndims dims lbs elmtype =
     (if ArrayGetNItems ndims dims \<le> 0 then construct_empty_array elmtype
      else ArrayType ndims dims lbs (\<exists>e \<in> set elems. snd e) elmtype elems
             (array_data_bytes env elmtype elems))"

definition deconstruct_array :: "ArrayType \<Rightarrow> (datum \<times> bool) list" where
  "deconstruct_array a = ARR_ELEMS a"

subsection \<open>Typed arrays (\<^verbatim>\<open>CreateExternalArray\<close>, \<^verbatim>\<open>ExtractExternalArrayDatum\<close>)\<close>

text \<open>
  \<^verbatim>\<open>ArrayBuffer::New(isolate, byte_size)\<close> takes a \<^verbatim>\<open>size_t\<close>: a negative \<^verbatim>\<open>int\<close> is a size of
  more than \<open>2 ^ 63\<close> bytes, which no allocation provides, and V8 ends the process when
  the allocation of a buffer fails.  The handle it returns is never empty (\<open>Some\<close>); the
  model has no other failure of an allocation.  \<^verbatim>\<open>memcpy\<close> overwrites the first bytes
  of the buffer.
\<close>

definition ArrayBuffer_New :: "int \<Rightarrow> 8 word list option result" where
  "ArrayBuffer_New byte_size =
     (if byte_size < 0 then Inl (process_abort ''v8::ArrayBuffer::New'')
      else Inr (Some (replicate (nat byte_size) 0)))"

definition memcpy :: "8 word list \<Rightarrow> 8 word list \<Rightarrow> int \<Rightarrow> 8 word list" where
  "memcpy dest src n = take (nat n) src @ drop (nat n) dest"

text \<open>
  The \<^verbatim>\<open>switch\<close> of \<^verbatim>\<open>CreateExternalArray\<close>: the view and its number of elements, or \<open>None\<close>
  where control reaches \<^verbatim>\<open>throw js_error("unexpected array type")\<close>.  The arm of
  \<^verbatim>\<open>kExternalInt64Array\<close> makes its view and, having no \<^verbatim>\<open>break\<close>, runs into the default arm.
\<close>

definition external_array_view :: "plv8_external_array_type \<Rightarrow> int \<Rightarrow> (typed_array_kind \<times> nat) option" where
  "external_array_view array_type byte_size =
     (case array_type of
        kExternalByteArray \<Rightarrow> Some (Int8Array, nat byte_size)
      | kExternalUnsignedByteArray \<Rightarrow> Some (Uint8Array, nat byte_size)
      | kExternalShortArray \<Rightarrow> Some (Int16Array, nat (byte_size div 2))
      | kExternalUnsignedShortArray \<Rightarrow> Some (Uint16Array, nat (byte_size div 2))
      | kExternalIntArray \<Rightarrow> Some (Int32Array, nat (byte_size div 4))
      | kExternalUnsignedIntArray \<Rightarrow> Some (Uint32Array, nat (byte_size div 4))
      | kExternalFloatArray \<Rightarrow> Some (Float32Array, nat (byte_size div 4))
      | kExternalDoubleArray \<Rightarrow> Some (Float64Array, nat (byte_size div 8))
      | kExternalInt64Array \<Rightarrow> None
      | kExternalNone \<Rightarrow> None)"

definition CreateExternalArray ::
  "8 word list \<Rightarrow> plv8_external_array_type \<Rightarrow> int \<Rightarrow> datum \<Rightarrow> js_value result" where
  "CreateExternalArray data array_type byte_size d =
     (case ArrayBuffer_New byte_size of
        Inl e \<Rightarrow> Inl e
      | Inr None \<Rightarrow> Inl empty_handle
      | Inr (Some buffer) \<Rightarrow>
          (case external_array_view array_type byte_size of
             None \<Rightarrow> Inl (js_error ''unexpected array type'')
           | Some (kind, n) \<Rightarrow> Inr (JSTypedArray kind (memcpy buffer data byte_size) n (Some d))))"

text \<open>
  \<^verbatim>\<open>ExtractExternalArrayDatum\<close> casts the internal field 0 of a typed array to an
  \<^verbatim>\<open>External\<close> and reads its pointer.  A typed array made by a script has no \<^verbatim>\<open>External\<close>
  there: the cast is unchecked and the read is outside any object.
\<close>

definition ExtractExternalArrayDatum :: "js_value \<Rightarrow> datum option result" where
  "ExtractExternalArrayDatum v =
     (if IsUndefined v \<or> IsNull v then Inr None
      else case v of
             JSTypedArray k buf n fld \<Rightarrow>
               (case fld of
                  Some d \<Rightarrow> Inr (Some d)
                | None \<Rightarrow> Inl (undefined_behaviour ''External::Cast''))
           | _ \<Rightarrow> Inr None)"

subsection \<open>Building a JSONB tree\<close>

datatype JsonbIteratorToken =
    WJB_DONE | WJB_KEY | WJB_VALUE | WJB_ELEM
  | WJB_BEGIN_ARRAY | WJB_END_ARRAY | WJB_BEGIN_OBJECT | WJB_END_OBJECT

text \<open>
  The parse state of PostgreSQL's \<^verbatim>\<open>pushJsonbValue\<close> (\<^verbatim>\<open>jsonb_util.c\<close>) is a stack of
  containers under construction, the innermost first; the empty stack is the \<^verbatim>\<open>NULL\<close>
  state.  An object under construction is its \<^verbatim>\<open>nPairs\<close> finished pairs and the key slot
  after them: \<^verbatim>\<open>appendKey\<close> writes the key slot and leaves \<^verbatim>\<open>nPairs\<close> as it is,
  \<^verbatim>\<open>appendValue\<close> writes the value beside the key and counts the pair.
\<close>

datatype JsonbParseFrame =
    ArrayFrame "JsonbValue list"
  | ObjectFrame "(string \<times> JsonbValue) list" "string option"

type_synonym JsonbParseState = "JsonbParseFrame list"

text \<open>
  \<^verbatim>\<open>lengthCompareJsonbStringValue\<close>: a shorter key is smaller; keys of one length compare
  as \<^verbatim>\<open>memcmp\<close> compares their bytes.
\<close>

fun memcmp_less :: "string \<Rightarrow> string \<Rightarrow> bool" where
  "memcmp_less (a # as) (b # bs) =
     ((of_char a :: nat) < of_char b \<or> (a = b \<and> memcmp_less as bs))"
| "memcmp_less as bs = False"

definition jsonb_key_less :: "string \<Rightarrow> string \<Rightarrow> bool" where
  "jsonb_key_less a b = (length a < length b \<or> (length a = length b \<and> memcmp_less a b))"

text \<open>
  \<^verbatim>\<open>uniqueifyJsonbObject\<close> sorts the pairs by key and keeps, of the pairs of one key, the
  one pushed last: here each pair in turn replaces the pair of its key or takes its place
  in the sorted list.
\<close>

fun jsonb_insert_pair ::
  "string \<times> JsonbValue \<Rightarrow> (string \<times> JsonbValue) list \<Rightarrow> (string \<times> JsonbValue) list" where
  "jsonb_insert_pair kv [] = [kv]"
| "jsonb_insert_pair kv (p # ps) =
     (if fst kv = fst p then kv # ps
      else if jsonb_key_less (fst kv) (fst p) then kv # p # ps
      else p # jsonb_insert_pair kv ps)"

definition uniqueifyJsonbObject :: "(string \<times> JsonbValue) list \<Rightarrow> (string \<times> JsonbValue) list" where
  "uniqueifyJsonbObject ps = foldl (\<lambda>acc kv. jsonb_insert_pair kv acc) [] ps"

text \<open>A finished container becomes an element or a member value of its parent.\<close>

definition jsonb_append :: "JsonbParseState \<Rightarrow> JsonbValue \<Rightarrow> JsonbParseState result" where
  "jsonb_append st v =
     (case st of
        [] \<Rightarrow> Inr []
      | ArrayFrame es # rest \<Rightarrow> Inr (ArrayFrame (es @ [v]) # rest)
      | ObjectFrame ps (Some k) # rest \<Rightarrow> Inr (ObjectFrame (ps @ [(k, v)]) None # rest)
      | ObjectFrame ps None # rest \<Rightarrow> Inl (undefined_behaviour ''appendValue without a key''))"

definition pushJsonbValue ::
  "JsonbParseState \<Rightarrow> JsonbIteratorToken \<Rightarrow> JsonbValue option
     \<Rightarrow> (JsonbParseState \<times> JsonbValue option) result" where
  "pushJsonbValue st tok scalarVal =
     (case tok of
        WJB_BEGIN_ARRAY \<Rightarrow> Inr (ArrayFrame [] # st, Some (jbvArray []))
      | WJB_BEGIN_OBJECT \<Rightarrow> Inr (ObjectFrame [] None # st, Some (jbvObject []))
      | WJB_KEY \<Rightarrow>
          (case (st, scalarVal) of
             (ObjectFrame ps pending # rest, Some (jbvString k)) \<Rightarrow>
               Inr (ObjectFrame ps (Some k) # rest, None)
           | _ \<Rightarrow> Inl (undefined_behaviour ''appendKey''))
      | WJB_VALUE \<Rightarrow>
          (case (st, scalarVal) of
             (ObjectFrame ps (Some k) # rest, Some v) \<Rightarrow>
               Inr (ObjectFrame (ps @ [(k, v)]) None # rest, None)
           | _ \<Rightarrow> Inl (undefined_behaviour ''appendValue''))
      | WJB_ELEM \<Rightarrow>
          (case (st, scalarVal) of
             (ArrayFrame es # rest, Some v) \<Rightarrow> Inr (ArrayFrame (es @ [v]) # rest, None)
           | _ \<Rightarrow> Inl (undefined_behaviour ''appendElement''))
      | WJB_END_OBJECT \<Rightarrow>
          (case st of
             ObjectFrame ps pending # rest \<Rightarrow>
               (case jsonb_append rest (jbvObject (uniqueifyJsonbObject ps)) of
                  Inl e \<Rightarrow> Inl e
                | Inr st' \<Rightarrow> Inr (st', Some (jbvObject (uniqueifyJsonbObject ps))))
           | _ \<Rightarrow> Inl (undefined_behaviour ''WJB_END_OBJECT''))
      | WJB_END_ARRAY \<Rightarrow>
          (case st of
             ArrayFrame es # rest \<Rightarrow>
               (case jsonb_append rest (jbvArray es) of
                  Inl e \<Rightarrow> Inl e
                | Inr st' \<Rightarrow> Inr (st', Some (jbvArray es)))
           | _ \<Rightarrow> Inl (undefined_behaviour ''WJB_END_ARRAY''))
      | WJB_DONE \<Rightarrow> Inl (undefined_behaviour ''pushJsonbValue''))"

subsection \<open>From a V8 value to JSONB\<close>

text \<open>
  \<^verbatim>\<open>TimeAs8601\<close>: the seconds are formatted by \<^verbatim>\<open>strftime\<close> over \<^verbatim>\<open>gmtime\<close>, the
  milliseconds are \<^verbatim>\<open>(int) (fractional * 1000)\<close> of the fractional part that \<^verbatim>\<open>modf\<close>
  gives for \<^verbatim>\<open>millis / 1000\<close>.  \<^verbatim>\<open>sprintf\<close> writes the result and its terminator into a
  buffer of 25 bytes: a result of more than 24 characters does not fit.  It is called for
  a time value that is not NaN.
\<close>

definition TimeAs8601 :: "pg_env \<Rightarrow> double \<Rightarrow> string result" where
  "TimeAs8601 env millis =
     (case dbl_op (\<lambda>r. r / 1000) millis of
        Finite q \<Rightarrow>
          (let fractional = q - of_int (trunc q);
               ms = (case to_double (fractional * 1000) of Finite m \<Rightarrow> trunc m | _ \<Rightarrow> 0);
               buf = strftime_gmtime env (trunc q) @ ''.'' @ sprintf_03d ms @ ''Z''
           in if 24 < length buf then Inl (undefined_behaviour ''sprintf'') else Inr buf)
      | _ \<Rightarrow> Inl (undefined_behaviour ''(time_t) (millis / 1000)''))"

text \<open>
  A string value of a \<^verbatim>\<open>JsonbValue\<close>: the converted copy, read with the length of the
  UTF-8 form (\<^verbatim>\<open>utf8.length()\<close>); no string gives the empty string.
\<close>

definition jsonb_string :: "pg_env \<Rightarrow> js_value \<Rightarrow> JsonbValue result" where
  "jsonb_string env v =
     (case Utf8Value env v of
        None \<Rightarrow> Inr (jbvString [])
      | Some u \<Rightarrow>
          (case ToCStringCopy env (Some u) of
             Inl e \<Rightarrow> Inl e
           | Inr None \<Rightarrow> Inr (jbvString [])
           | Inr (Some c) \<Rightarrow> bind (read_bytes c (length u)) (\<lambda>str. Inr (jbvString str))))"

text \<open>
  \<^verbatim>\<open>JsonbFromValue\<close>.  For an Undefined value that is no key it returns \<^verbatim>\<open>NULL\<close> and pushes
  nothing.  \<^verbatim>\<open>LogType(value, false)\<close> only writes notices and is left out.
\<close>

definition JsonbFromValue ::
  "pg_env \<Rightarrow> JsonbParseState \<Rightarrow> js_value \<Rightarrow> JsonbIteratorToken
     \<Rightarrow> (JsonbParseState \<times> JsonbValue option) result" where
  "JsonbFromValue env pstate v type =
     (if type = WJB_KEY then
        (case jsonb_string env v of
           Inl e \<Rightarrow> Inl e
         | Inr val \<Rightarrow> pushJsonbValue pstate type (Some val))
      else if IsBoolean v then pushJsonbValue pstate type (Some (jbvBool (BooleanValue v)))
      else if IsNull v then pushJsonbValue pstate type (Some jbvNull)
      else if IsUndefined v then Inr (pstate, None)
      else if IsString v then
        (case jsonb_string env v of
           Inl e \<Rightarrow> Inl e
         | Inr val \<Rightarrow> pushJsonbValue pstate type (Some val))
      else if IsNumber v then
        (if IsInt32 v then
           pushJsonbValue pstate type (Some (jbvNumeric (int4_numeric (Int32Value (NumberValue v)))))
         else if IsUint32 v then
           pushJsonbValue pstate type
             (Some (jbvNumeric (int8_numeric (ucast (Uint32Value (NumberValue v))))))
         else
           (case direct_call (float8_numeric env (NumberValue v)) of
              Inl e \<Rightarrow> Inl e
            | Inr n \<Rightarrow> pushJsonbValue pstate type (Some (jbvNumeric n))))
      else if IsDate v then
        (if NumberValue v = NaN then pushJsonbValue pstate type (Some jbvNull)
         else (case bind (TimeAs8601 env (NumberValue v)) (\<lambda>buf. read_bytes buf 24) of
                 Inl e \<Rightarrow> Inl e
               | Inr str \<Rightarrow> pushJsonbValue pstate type (Some (jbvString str))))
      else
        (case jsonb_string env v of
           Inl e \<Rightarrow> Inl e
         | Inr val \<Rightarrow> pushJsonbValue pstate type (Some val)))"

text \<open>
  The two loops of \<^verbatim>\<open>JsonbArrayFromArray\<close> and \<^verbatim>\<open>JsonbObjectFromObject\<close> are the functions
  \<open>JsonbArray_elems\<close> and \<open>JsonbObject_members\<close>.  An object that is no plain object has
  no own enumerable property, but a typed array: its indices, bound to Numbers, for which
  the loop body is the call of \<^verbatim>\<open>JsonbFromValue\<close> (\<open>JsonbObject_numbers\<close>).
\<close>

fun JsonbObject_numbers ::
  "pg_env \<Rightarrow> JsonbParseState \<Rightarrow> nat \<Rightarrow> double list \<Rightarrow> JsonbParseState result" where
  "JsonbObject_numbers env pstate i [] = Inr pstate"
| "JsonbObject_numbers env pstate i (d # ds) =
     (case JsonbFromValue env pstate (JSString (nat_to_string i)) WJB_KEY of
        Inl e \<Rightarrow> Inl e
      | Inr (st1, val1) \<Rightarrow>
          (case JsonbFromValue env st1 (JSNumber d) WJB_VALUE of
             Inl e \<Rightarrow> Inl e
           | Inr (st2, val2) \<Rightarrow> JsonbObject_numbers env st2 (Suc i) ds))"

fun JsonbArrayFromArray ::
      "pg_env \<Rightarrow> JsonbParseState \<Rightarrow> js_value \<Rightarrow> (JsonbParseState \<times> JsonbValue option) result"
  and JsonbObjectFromObject ::
      "pg_env \<Rightarrow> JsonbParseState \<Rightarrow> js_value \<Rightarrow> (JsonbParseState \<times> JsonbValue option) result"
  and JsonbArray_elems ::
      "pg_env \<Rightarrow> JsonbParseState \<Rightarrow> js_value list \<Rightarrow> JsonbParseState result"
  and JsonbObject_members ::
      "pg_env \<Rightarrow> JsonbParseState \<Rightarrow> (string \<times> js_value) list \<Rightarrow> JsonbParseState result"
where
  "JsonbArrayFromArray env pstate (JSArray xs) =
     (case pushJsonbValue pstate WJB_BEGIN_ARRAY None of
        Inl e \<Rightarrow> Inl e
      | Inr (st1, val1) \<Rightarrow>
          (case JsonbArray_elems env st1 xs of
             Inl e \<Rightarrow> Inl e
           | Inr st2 \<Rightarrow> pushJsonbValue st2 WJB_END_ARRAY None))"
| "JsonbArrayFromArray env pstate v = Inl (undefined_behaviour ''Array::Cast'')"
| "JsonbObjectFromObject env pstate (JSObject ps) =
     (case pushJsonbValue pstate WJB_BEGIN_OBJECT None of
        Inl e \<Rightarrow> Inl e
      | Inr (st1, val1) \<Rightarrow>
          (case JsonbObject_members env st1 ps of
             Inl e \<Rightarrow> Inl e
           | Inr st2 \<Rightarrow> pushJsonbValue st2 WJB_END_OBJECT None))"
| "JsonbObjectFromObject env pstate (JSTypedArray k buf n fld) =
     (case pushJsonbValue pstate WJB_BEGIN_OBJECT None of
        Inl e \<Rightarrow> Inl e
      | Inr (st1, val1) \<Rightarrow>
          (case JsonbObject_numbers env st1 0 (typed_array_numbers env k buf n) of
             Inl e \<Rightarrow> Inl e
           | Inr st2 \<Rightarrow> pushJsonbValue st2 WJB_END_OBJECT None))"
| "JsonbObjectFromObject env pstate v =
     (case pushJsonbValue pstate WJB_BEGIN_OBJECT None of
        Inl e \<Rightarrow> Inl e
      | Inr (st1, val1) \<Rightarrow> pushJsonbValue st1 WJB_END_OBJECT None)"
| "JsonbArray_elems env pstate [] = Inr pstate"
| "JsonbArray_elems env pstate (x # xs) =
     (case (if IsArray x then JsonbArrayFromArray env pstate x
            else if IsObject x then JsonbObjectFromObject env pstate x
            else JsonbFromValue env pstate x WJB_ELEM) of
        Inl e \<Rightarrow> Inl e
      | Inr (st1, val) \<Rightarrow> JsonbArray_elems env st1 xs)"
| "JsonbObject_members env pstate [] = Inr pstate"
| "JsonbObject_members env pstate (kv # kvs) =
     (case JsonbFromValue env pstate (JSString (fst kv)) WJB_KEY of
        Inl e \<Rightarrow> Inl e
      | Inr (st1, val1) \<Rightarrow>
          (case (if IsDate (snd kv) then JsonbFromValue env st1 (snd kv) WJB_VALUE
                 else if IsArray (snd kv) then JsonbArrayFromArray env st1 (snd kv)
                 else if IsObject (snd kv) then JsonbObjectFromObject env st1 (snd kv)
                 else JsonbFromValue env st1 (snd kv) WJB_VALUE) of
             Inl e \<Rightarrow> Inl e
           | Inr (st2, val2) \<Rightarrow> JsonbObject_members env st2 kvs))"

text \<open>
  \<^verbatim>\<open>ConvertObject\<close> starts from the \<^verbatim>\<open>NULL\<close> parse state and returns the tree of the last
  push (\<^verbatim>\<open>JsonbValueToJsonb\<close> serialises it; a JSONB datum is its tree here).
\<close>

definition ConvertObject :: "pg_env \<Rightarrow> js_value \<Rightarrow> JsonbValue result" where
  "ConvertObject env object =
     (case (if IsArray object then JsonbArrayFromArray env [] object
            else if IsObject object then JsonbObjectFromObject env [] object
            else (case pushJsonbValue [] WJB_BEGIN_ARRAY None of
                    Inl e \<Rightarrow> Inl e
                  | Inr (st1, val1) \<Rightarrow>
                      (case JsonbFromValue env st1 object WJB_ELEM of
                         Inl e \<Rightarrow> Inl e
                       | Inr (st2, val2) \<Rightarrow> pushJsonbValue st2 WJB_END_ARRAY None))) of
        Inl e \<Rightarrow> Inl e
      | Inr (st, None) \<Rightarrow> Inl (undefined_behaviour ''JsonbValueToJsonb(NULL)'')
      | Inr (st, Some val) \<Rightarrow> Inr val)"

subsection \<open>From JSONB to a V8 value\<close>

text \<open>
  The tokens that PostgreSQL's \<^verbatim>\<open>JsonbIteratorNext\<close> yields for a tree, each with the
  scalar it carries: a container opens and closes with its \<^verbatim>\<open>BEGIN\<close> and \<^verbatim>\<open>END\<close> tokens, a
  scalar element is an \<^verbatim>\<open>ELEM\<close>, a member is a \<^verbatim>\<open>KEY\<close> followed by a \<^verbatim>\<open>VALUE\<close> or by the
  tokens of a container; a scalar at the root is stored as an array of one element.  The
  end of the list is \<^verbatim>\<open>WJB_DONE\<close>.
\<close>

fun jsonb_tokens :: "JsonbValue \<Rightarrow> (JsonbIteratorToken \<times> JsonbValue) list"
  and jsonb_elem_tokens :: "JsonbValue list \<Rightarrow> (JsonbIteratorToken \<times> JsonbValue) list"
  and jsonb_pair_tokens :: "(string \<times> JsonbValue) list \<Rightarrow> (JsonbIteratorToken \<times> JsonbValue) list"
where
  "jsonb_tokens (jbvArray es) =
     (WJB_BEGIN_ARRAY, jbvNull) # jsonb_elem_tokens es @ [(WJB_END_ARRAY, jbvNull)]"
| "jsonb_tokens (jbvObject ps) =
     (WJB_BEGIN_OBJECT, jbvNull) # jsonb_pair_tokens ps @ [(WJB_END_OBJECT, jbvNull)]"
| "jsonb_tokens v = [(WJB_BEGIN_ARRAY, jbvNull), (WJB_ELEM, v), (WJB_END_ARRAY, jbvNull)]"
| "jsonb_elem_tokens [] = []"
| "jsonb_elem_tokens (e # es) =
     (case e of
        jbvArray xs \<Rightarrow> jsonb_tokens e
      | jbvObject ps \<Rightarrow> jsonb_tokens e
      | _ \<Rightarrow> [(WJB_ELEM, e)]) @ jsonb_elem_tokens es"
| "jsonb_pair_tokens [] = []"
| "jsonb_pair_tokens (p # ps) =
     (WJB_KEY, jbvString (fst p))
     # (case snd p of
          jbvArray xs \<Rightarrow> jsonb_tokens (snd p)
        | jbvObject qs \<Rightarrow> jsonb_tokens (snd p)
        | _ \<Rightarrow> [(WJB_VALUE, snd p)]) @ jsonb_pair_tokens ps"

definition GetJsonbValue :: "pg_env \<Rightarrow> JsonbValue \<Rightarrow> js_value result" where
  "GetJsonbValue env scalarVal =
     (case scalarVal of
        jbvNull \<Rightarrow> Inr JSNull
      | jbvString t \<Rightarrow> Inr (JSString (takeWhile (\<lambda>c. c \<noteq> char_of (0 :: nat)) t))
      | jbvNumeric n \<Rightarrow> bind (direct_call (numeric_float8 env n)) (\<lambda>d. Inr (JSNumber d))
      | jbvBool b \<Rightarrow> Inr (JSBoolean b)
      | _ \<Rightarrow> Inl (ereport_ERROR ''unknown jsonb scalar type''))"

text \<open>
  \<^verbatim>\<open>container->Set(count, x)\<close> and \<^verbatim>\<open>container->Set(key, x)\<close>.  The key is a String; with
  no key read so far the handle is empty.
\<close>

definition js_set_index :: "js_value \<Rightarrow> nat \<Rightarrow> js_value \<Rightarrow> js_value" where
  "js_set_index c i x =
     (case c of
        JSArray xs \<Rightarrow> JSArray ((xs @ replicate (Suc i - length xs) JSUndefined)[i := x])
      | _ \<Rightarrow> c)"

definition js_set_key :: "js_value \<Rightarrow> js_value option \<Rightarrow> js_value \<Rightarrow> js_value result" where
  "js_set_key c key x =
     (case (c, key) of
        (JSObject ps, Some (JSString k)) \<Rightarrow>
          Inr (JSObject (if k \<in> fst ` set ps
                         then map (\<lambda>p. if fst p = k then (k, x) else p) ps
                         else ps @ [(k, x)]))
      | _ \<Rightarrow> Inl (undefined_behaviour ''Set with an empty key''))"

definition js_set :: "js_value \<Rightarrow> nat \<Rightarrow> js_value option \<Rightarrow> js_value \<Rightarrow> (js_value \<times> nat) result" where
  "js_set c count key x =
     (if IsArray c then Inr (js_set_index c count x, Suc count)
      else bind (js_set_key c key x) (\<lambda>c'. Inr (c', count)))"

text \<open>
  \<^verbatim>\<open>JsonbIterate\<close> reads tokens until the container it fills is closed, and calls itself
  for a nested container; it returns the container and the tokens left.  The first
  argument bounds the number of calls: the length of the token list is enough, since every
  call reads a token.
\<close>

fun JsonbIterate ::
  "nat \<Rightarrow> pg_env \<Rightarrow> (JsonbIteratorToken \<times> JsonbValue) list \<Rightarrow> js_value \<Rightarrow> nat
     \<Rightarrow> js_value option \<Rightarrow> (js_value \<times> (JsonbIteratorToken \<times> JsonbValue) list) option result" where
  "JsonbIterate 0 env toks container count key = Inr None"
| "JsonbIterate (Suc fuel) env [] container count key = Inr (Some (container, []))"
| "JsonbIterate (Suc fuel) env ((tok, val) # toks) container count key =
     (if tok = WJB_BEGIN_OBJECT \<or> tok = WJB_BEGIN_ARRAY then
        (case JsonbIterate fuel env toks
                (if tok = WJB_BEGIN_OBJECT then JSObject [] else JSArray []) 0 None of
           Inl e \<Rightarrow> Inl e
         | Inr None \<Rightarrow> Inr None
         | Inr (Some (obj, rest)) \<Rightarrow>
             (case js_set container count key obj of
                Inl e \<Rightarrow> Inl e
              | Inr (c', count') \<Rightarrow> JsonbIterate fuel env rest c' count' key))
      else if tok = WJB_END_OBJECT \<or> tok = WJB_END_ARRAY \<or> tok = WJB_DONE then
        Inr (Some (container, toks))
      else if tok = WJB_KEY then
        (case GetJsonbValue env val of
           Inl e \<Rightarrow> Inl e
         | Inr k \<Rightarrow> JsonbIterate fuel env toks container count (Some k))
      else
        (case GetJsonbValue env val of
           Inl e \<Rightarrow> Inl e
         | Inr x \<Rightarrow>
             (case (if tok = WJB_VALUE then bind (js_set_key container key x) (\<lambda>c'. Inr (c', count))
                    else Inr (js_set_index container count x, Suc count)) of
                Inl e \<Rightarrow> Inl e
              | Inr (c', count') \<Rightarrow> JsonbIterate fuel env toks c' count' key)))"

definition ConvertJsonb :: "pg_env \<Rightarrow> JsonbValue \<Rightarrow> js_value result" where
  "ConvertJsonb env j =
     (case jsonb_tokens j of
        [] \<Rightarrow> Inl (undefined_behaviour ''JsonbIteratorNext'')
      | (tok, val) # toks \<Rightarrow>
          (case JsonbIterate (Suc (length toks)) env toks
                  (if tok = WJB_BEGIN_ARRAY then JSArray [] else JSObject []) 0 None of
             Inl e \<Rightarrow> Inl e
           | Inr None \<Rightarrow> Inl (undefined_behaviour ''JsonbIterate'')
           | Inr (Some (c, rest)) \<Rightarrow> Inr c))"

subsection \<open>From a V8 value to a datum\<close>

text \<open>
  \<^verbatim>\<open>ToRecordDatum\<close>.  The conversion of the object itself is \<^verbatim>\<open>Converter::ToDatum\<close>.
\<close>

definition ToRecordDatum :: "pg_env \<Rightarrow> js_value \<Rightarrow> plv8_type \<Rightarrow> (datum \<times> bool) result" where
  "ToRecordDatum env v t =
     (if IsUndefined v \<or> IsNull v then Inr (DatumWord 0, True)
      else bind (pg_try (lookup_rowtype_tupdesc env (typid t) (- 1)))
             (\<lambda>tupdesc. bind (Converter_ToDatum env tupdesc v) (\<lambda>d. Inr (d, False))))"

text \<open>
  The last block of \<^verbatim>\<open>ToScalarDatum\<close> (``Use lexical cast for non-numeric types''): the
  string form of the value goes to the input function of the type.
\<close>

definition lexical_cast :: "pg_env \<Rightarrow> js_value \<Rightarrow> plv8_type \<Rightarrow> (datum \<times> bool) result" where
  "lexical_cast env v t =
     bind (CString env v)
       (\<lambda>str. bind (pg_try (InputFunctionCall env (typid t) str)) (\<lambda>d. Inr (d, False)))"

text \<open>
  The arms of the \<^verbatim>\<open>switch\<close> of \<^verbatim>\<open>ToScalarDatum\<close>.  Each gives \<open>Some r\<close> where the arm
  returns (or raises) \<open>r\<close>, and \<open>None\<close> where control leaves the \<^verbatim>\<open>switch\<close>.
\<close>

definition json_text_datum :: "pg_env \<Rightarrow> js_value \<Rightarrow> string result" where
  "json_text_datum env v =
     bind (JSON_Stringify env v)
       (\<lambda>r. bind (CString env r)
          (\<lambda>str. case str of
                    None \<Rightarrow> Inl (undefined_behaviour ''NULL string'')
                  | Some s \<Rightarrow> Inr s))"

definition ToScalarDatum_JSONOID :: "pg_env \<Rightarrow> js_value \<Rightarrow> datum result option" where
  "ToScalarDatum_JSONOID env v =
     (if IsObject v \<or> IsArray v
      then Some (bind (json_text_datum env v) (\<lambda>s. Inr (DatumText s)))
      else None)"

definition ToScalarDatum_JSONBOID :: "build_config \<Rightarrow> pg_env \<Rightarrow> js_value \<Rightarrow> datum result option" where
  "ToScalarDatum_JSONBOID cfg env v =
     (if JSONB_DIRECT_CONVERSION cfg
      then Some (bind (ConvertObject env v) (\<lambda>j. Inr (DatumJsonb j)))
      else if IsObject v \<or> IsArray v
      then Some (bind (json_text_datum env v)
                   (\<lambda>s. bind (direct_call (jsonb_in env s)) (\<lambda>j. Inr (DatumJsonb j))))
      else None)"

text \<open>
  The arm of \<^verbatim>\<open>BYTEAOID\<close> has no \<^verbatim>\<open>break\<close>: a value that is neither a typed array of 8, 16
  or 32 bit integers, nor a buffer, nor a typed array that carries a datum, goes on into
  the arm that follows in the build (\<^verbatim>\<open>JSONBOID\<close> from PostgreSQL 9.4, \<^verbatim>\<open>JSONOID\<close> from 9.2).
\<close>

definition ToScalarDatum_BYTEAOID :: "build_config \<Rightarrow> pg_env \<Rightarrow> js_value \<Rightarrow> datum result option" where
  "ToScalarDatum_BYTEAOID cfg env v =
     (case v of
        JSTypedArray k buf n fld \<Rightarrow>
          if k = Uint8Array \<or> k = Int8Array then Some (Inr (DatumBytea (take n buf)))
          else if k = Uint16Array \<or> k = Int16Array then Some (Inr (DatumBytea (take (n * 2) buf)))
          else if k = Uint32Array \<or> k = Int32Array then Some (Inr (DatumBytea (take (n * 4) buf)))
          else (case ExtractExternalArrayDatum v of
                  Inl e \<Rightarrow> Some (Inl e)
                | Inr (Some d) \<Rightarrow> Some (Inr d)
                | Inr None \<Rightarrow>
                    if 90400 \<le> PG_VERSION_NUM cfg then ToScalarDatum_JSONBOID cfg env v
                    else if 90200 \<le> PG_VERSION_NUM cfg then ToScalarDatum_JSONOID env v
                    else None)
      | JSArrayBuffer buf \<Rightarrow> Some (Inr (DatumBytea buf))
      | _ \<Rightarrow>
          if 90400 \<le> PG_VERSION_NUM cfg then ToScalarDatum_JSONBOID cfg env v
          else if 90200 \<le> PG_VERSION_NUM cfg then ToScalarDatum_JSONOID env v
          else None)"

definition ToScalarDatum_switch ::
  "build_config \<Rightarrow> pg_env \<Rightarrow> js_value \<Rightarrow> Oid \<Rightarrow> datum result option" where
  "ToScalarDatum_switch cfg env v oid =
     (if oid = OIDOID then
        (if IsNumber v then Some (Inr (ObjectIdGetDatum (Uint32Value (NumberValue v)))) else None)
      else if oid = BOOLOID then
        (if IsBoolean v then Some (Inr (BoolGetDatum (BooleanValue v))) else None)
      else if oid = INT2OID then
        (if IsNumber v then
           (if CHECK_INTEGER_OVERFLOW cfg then Some (int82 (IntegerValue (NumberValue v)))
            else Some (Inr (Int16GetDatum (ucast (Int32Value (NumberValue v))))))
         else None)
      else if oid = INT4OID then
        (if IsNumber v then
           (if CHECK_INTEGER_OVERFLOW cfg then Some (int84 (IntegerValue (NumberValue v)))
            else Some (Inr (Int32GetDatum (Int32Value (NumberValue v)))))
         else None)
      else if oid = INT8OID then
        (case v of
           JSBigInt b \<Rightarrow> Some (Inr (Int64GetDatum (BigInt_Int64Value b)))
         | JSNumber d \<Rightarrow> Some (Inr (Int64GetDatum (IntegerValue d)))
         | _ \<Rightarrow> None)
      else if oid = FLOAT4OID then
        (if IsNumber v then Some (Inr (DatumFloat4 (double_to_float (NumberValue v)))) else None)
      else if oid = FLOAT8OID then
        (if IsNumber v then Some (Inr (DatumFloat8 (NumberValue v))) else None)
      else if oid = NUMERICOID then
        (case v of
           JSBigInt b \<Rightarrow>
             Some (bind (direct_call (numeric_in env (int_to_string b))) (\<lambda>n. Inr (DatumNumeric n)))
         | JSNumber d \<Rightarrow>
             Some (bind (direct_call (float8_numeric env d)) (\<lambda>n. Inr (DatumNumeric n)))
         | _ \<Rightarrow> None)
      else if oid = DATEOID then
        (if IsDate v then Some (EpochToDate cfg (NumberValue v)) else None)
      else if oid = TIMESTAMPOID \<or> oid = TIMESTAMPTZOID then
        (if IsDate v then Some (EpochToTimestampTz cfg (NumberValue v)) else None)
      else if oid = BYTEAOID then ToScalarDatum_BYTEAOID cfg env v
      else if oid = JSONBOID \<and> 90400 \<le> PG_VERSION_NUM cfg then ToScalarDatum_JSONBOID cfg env v
      else if oid = JSONOID \<and> 90200 \<le> PG_VERSION_NUM cfg then ToScalarDatum_JSONOID env v
      else None)"

definition ToScalarDatum ::
  "build_config \<Rightarrow> pg_env \<Rightarrow> js_value \<Rightarrow> plv8_type \<Rightarrow> (datum \<times> bool) result" where
  "ToScalarDatum cfg env v t =
     (if category t = TYPCATEGORY_COMPOSITE then ToRecordDatum env v t
      else if IsUndefined v \<or> IsNull v then Inr (DatumWord 0, True)
      else (case ToScalarDatum_switch cfg env v (typid t) of
              Some r \<Rightarrow> bind r (\<lambda>d. Inr (d, False))
            | None \<Rightarrow> lexical_cast env v t))"

text \<open>
  \<^verbatim>\<open>ToArrayDatum\<close>.  The two work arrays are allocated with \<^verbatim>\<open>palloc\<close> before any
  element is converted; PostgreSQL refuses a request of more than \<^verbatim>\<open>MaxAllocSize\<close>
  (\<^verbatim>\<open>0x3fffffff\<close>) bytes, which 8-byte datums reach beyond 134217727 elements (a length
  of \<open>2^31\<close> or more is negative as an \<^verbatim>\<open>int\<close> and asks for still more).
\<close>

definition MaxAllocDatums :: nat where
  "MaxAllocDatums = 134217727"

definition ToArrayDatum ::
  "build_config \<Rightarrow> pg_env \<Rightarrow> js_value \<Rightarrow> plv8_type \<Rightarrow> (datum \<times> bool) result" where
  "ToArrayDatum cfg env v t =
     (if IsUndefined v \<or> IsNull v then Inr (DatumWord 0, True)
      else case ExtractExternalArrayDatum v of
             Inl e \<Rightarrow> Inl e
           | Inr (Some d) \<Rightarrow> Inr (d, False)
           | Inr None \<Rightarrow>
               (case v of
                  JSArray xs \<Rightarrow>
                    if MaxAllocDatums < length xs
                    then Inl (ereport_ERROR ''invalid memory alloc request size'')
                    else
                    bind (collect (map (\<lambda>x. if is_composite t then ToRecordDatum env x t
                                             else ToScalarDatum cfg env x t) xs))
                      (\<lambda>elems. Inr (DatumArray (construct_md_array env elems 1
                                                   [int (length xs)] [1] (typid t)), False))
                | _ \<Rightarrow> Inl (js_error ''value is not an Array'')))"

definition ToDatum ::
  "build_config \<Rightarrow> pg_env \<Rightarrow> js_value \<Rightarrow> plv8_type \<Rightarrow> (datum \<times> bool) result" where
  "ToDatum cfg env v t =
     (if category t = TYPCATEGORY_ARRAY then ToArrayDatum cfg env v t
      else ToScalarDatum cfg env v t)"

subsection \<open>From a datum to a V8 value\<close>

definition INT32_MAX :: int where "INT32_MAX = 2147483647"
definition INT32_MIN :: int where "INT32_MIN = - 2147483648"

text \<open>
  \<^verbatim>\<open>ToScalarValue\<close>.  \<^verbatim>\<open>Uint32::New\<close> and \<^verbatim>\<open>Int32::New\<close> are both \<^verbatim>\<open>Integer::New\<close> of V8,
  which takes an \<^verbatim>\<open>int32_t\<close>: an object identifier is read as a signed number.  With
  \<^verbatim>\<open>BIGINT_GRACEFUL\<close>, \<^verbatim>\<open>sprintf\<close> prints the value into \<^verbatim>\<open>char str[20]\<close>: 20 characters or
  more, with the terminator, do not fit.
\<close>

definition ToScalarValue ::
  "build_config \<Rightarrow> pg_env \<Rightarrow> datum \<Rightarrow> bool \<Rightarrow> plv8_type \<Rightarrow> js_value result" where
  "ToScalarValue cfg env d isnull t =
     (let oid = typid t in
      if oid = OIDOID then
        with_word d (\<lambda>w. Inr (JSNumber (int32_to_double (ucast w))))
      else if oid = BOOLOID then with_word d (\<lambda>w. Inr (JSBoolean (w \<noteq> 0)))
      else if oid = INT2OID then
        with_word d (\<lambda>w. Inr (JSNumber (to_double (of_int (sint (ucast w :: 16 word))))))
      else if oid = INT4OID then
        with_word d (\<lambda>w. Inr (JSNumber (int32_to_double (ucast w))))
      else if oid = INT8OID then
        with_word d (\<lambda>v.
          if BIGINT_GRACEFUL cfg then
            (if INT32_MAX < sint v \<or> sint v < INT32_MIN then
               (if 20 \<le> length (int_to_string (sint v))
                then Inl (undefined_behaviour ''sprintf'')
                else ToString_cstr env (int_to_string (sint v)))
             else Inr (JSNumber (int64_to_double v)))
          else Inr (JSBigInt (sint v)))
      else if oid = FLOAT4OID then
        (case d of DatumFloat4 x \<Rightarrow> Inr (JSNumber x) | _ \<Rightarrow> Inl bad_datum)
      else if oid = FLOAT8OID then
        (case d of DatumFloat8 x \<Rightarrow> Inr (JSNumber x) | _ \<Rightarrow> Inl bad_datum)
      else if oid = NUMERICOID then
        (case d of
           DatumNumeric n \<Rightarrow> bind (direct_call (numeric_float8 env n)) (\<lambda>x. Inr (JSNumber x))
         | _ \<Rightarrow> Inl bad_datum)
      else if oid = DATEOID then
        with_word d (\<lambda>w. Inr (Date_New (DateToEpoch cfg (ucast w))))
      else if oid = TIMESTAMPOID \<or> oid = TIMESTAMPTZOID then
        (case DatumGetTimestampTz cfg d of
           None \<Rightarrow> Inl bad_datum
         | Some tm \<Rightarrow> Inr (Date_New (TimestampTzToEpoch tm)))
      else if oid = TEXTOID \<or> oid = VARCHAROID \<or> oid = BPCHAROID \<or> oid = XMLOID then
        (case d of DatumText str \<Rightarrow> ToString_cstr env str | _ \<Rightarrow> Inl bad_datum)
      else if oid = BYTEAOID then
        (case d of
           DatumBytea p \<Rightarrow>
             CreateExternalArray p kExternalUnsignedByteArray (int (length p)) (DatumBytea p)
         | _ \<Rightarrow> Inl bad_datum)
      else if oid = JSONOID \<and> 90200 \<le> PG_VERSION_NUM cfg then
        (case d of
           DatumText str \<Rightarrow> bind (ToString_cstr env str) (JSON_Parse env)
         | _ \<Rightarrow> Inl bad_datum)
      else if oid = JSONBOID \<and> 90400 \<le> PG_VERSION_NUM cfg then
        (if JSONB_DIRECT_CONVERSION cfg then
           (case d of DatumJsonb j \<Rightarrow> ConvertJsonb env j | _ \<Rightarrow> Inl bad_datum)
         else bind (ToString_datum env d t) (JSON_Parse env))
      else ToString_datum env d t)"

text \<open>
  \<^verbatim>\<open>ToRecordValue\<close>.  The conversion of the tuple itself is \<^verbatim>\<open>Converter::ToValue\<close>.
\<close>

definition ToRecordValue :: "pg_env \<Rightarrow> datum \<Rightarrow> bool \<Rightarrow> plv8_type \<Rightarrow> js_value result" where
  "ToRecordValue env d isnull t =
     (case d of
        DatumTuple tupType tupTypmod attrs \<Rightarrow>
          bind (pg_try (lookup_rowtype_tupdesc env tupType tupTypmod))
            (\<lambda>tupdesc. Converter_ToValue env tupdesc d)
      | _ \<Rightarrow> Inl bad_datum)"

text \<open>
  The descriptor \<^verbatim>\<open>base\<close> that \<^verbatim>\<open>ToArrayValue\<close> builds for the elements: zero-initialised,
  then type identifier, category and layout are filled in.
\<close>

definition array_base_type :: "pg_env \<Rightarrow> plv8_type \<Rightarrow> plv8_type" where
  "array_base_type env t =
     (let base_typid = (if typid t = RECORDARRAYOID then RECORDOID else typid t);
          lba = get_typlenbyvalalign env base_typid
      in \<lparr> typid = base_typid,
           category = get_type_category_preferred env base_typid,
           is_composite = False,
           len = fst lba, byval = fst (snd lba), align = snd (snd lba),
           ext_array = kExternalNone \<rparr>)"

function (sequential) ToValue ::
      "build_config \<Rightarrow> pg_env \<Rightarrow> datum \<Rightarrow> bool \<Rightarrow> plv8_type \<Rightarrow> js_value result"
  and ToArrayValue ::
      "build_config \<Rightarrow> pg_env \<Rightarrow> datum \<Rightarrow> bool \<Rightarrow> plv8_type \<Rightarrow> js_value result"
where
  "ToValue cfg env d isnull t =
     (if isnull then Inr JSNull
      else if category t = TYPCATEGORY_ARRAY \<or> typid t = RECORDARRAYOID
        then ToArrayValue cfg env d isnull t
      else if category t = TYPCATEGORY_COMPOSITE \<or> typid t = RECORDOID
        then ToRecordValue env d isnull t
      else ToScalarValue cfg env d isnull t)"
| "ToArrayValue cfg env (DatumArray array) isnull t =
     (if ext_array t \<noteq> kExternalNone then
        (if \<not> ARR_HASNULL array \<and> ARR_NDIM array \<le> 1 then
           CreateExternalArray (ARR_DATA array) (ext_array t)
             (ARR_SIZE array - ARR_OVERHEAD_NONULLS 1) (DatumArray array)
         else Inl (js_error
                ''NULL element, or multi-dimension array not allowed in external array type''))
      else
        (case collect (map (\<lambda>e. ToValue cfg env (fst e) (snd e) (array_base_type env t))
                         (deconstruct_array array)) of
           Inl e \<Rightarrow> Inl e
         | Inr result \<Rightarrow> Inr (JSArray result)))"
| "ToArrayValue cfg env d isnull t = Inl bad_datum"
  by pat_completeness auto

termination
proof (relation "measure (\<lambda>x. case x of Inl (cfg, env, d, isnull, t) \<Rightarrow> 2 * size d + 1
                                       | Inr (cfg, env, d, isnull, t) \<Rightarrow> 2 * size d)", goal_cases)
  case 1
  show ?case by simp
next
  case (2 cfg env d isnull t)
  show ?case by simp
next
  case (3 cfg env array isnull t x)
  obtain n ds ls h ty es bs where a: "array = ArrayType n ds ls h ty es bs"
    by (cases array)
  from 3 have mem: "x \<in> set es" by (simp add: deconstruct_array_def a)
  have "size_prod size (\<lambda>_. 0) x \<le> size_list (size_prod size (\<lambda>_. 0)) es"
    using mem by (rule size_list_estimation') simp
  moreover have "size (fst x) \<le> size_prod size (\<lambda>_. 0) x" by (cases x) simp
  ultimately have "size (fst x) < size (DatumArray array)" by (simp add: a)
  then show ?case by simp
qed

subsection \<open>A build and an environment for concrete inputs\<close>

text \<open>
  The theorems below hold for every build and every environment unless they say
  otherwise.  Where one is applied to a concrete input, the build is \<open>pg11_build\<close>
  (PostgreSQL 11, integer timestamps, direct JSONB conversion) and the environment is
  \<open>utf8_env\<close>: a database in UTF-8 whose input functions accept the strings \<open>true\<close> and
  \<open>false\<close> only and whose other functions return fixed values.
\<close>

definition pg11_build :: build_config where
  "pg11_build =
     \<lparr> PG_VERSION_NUM = 110000, JSONB_DIRECT_CONVERSION = True, BIGINT_GRACEFUL = False,
       CHECK_INTEGER_OVERFLOW = False, HAVE_INT64_TIMESTAMP = True \<rparr>"

definition utf8_env :: pg_env where
  "utf8_env =
     \<lparr> GetDatabaseEncoding = PG_UTF8,
       encoding_conversion = (\<lambda>s src dest. Inr s),
       InputFunctionCall =
         (\<lambda>oid str. if str = Some ''true'' then Inr (DatumWord 1)
                     else if str = Some ''false'' then Inr (DatumWord 0)
                     else Inl ''invalid input syntax''),
       OutputFunctionCall = (\<lambda>oid d. Inr ''?''),
       numeric_in = (\<lambda>s. Inl ''invalid input syntax''),
       float8_numeric = (\<lambda>d. case d of Finite r \<Rightarrow> Inr (Numeric r) | _ \<Rightarrow> Inr NumericNaN),
       numeric_float8 = (\<lambda>n. case n of Numeric r \<Rightarrow> Inr (to_double r) | NumericNaN \<Rightarrow> Inr NaN),
       jsonb_in = (\<lambda>s. Inl ''invalid input syntax''),
       lookup_rowtype_tupdesc = (\<lambda>oid typmod. Inl ''type is not composite''),
       get_type_category_preferred = (\<lambda>oid. CHR ''N''),
       get_typlenbyvalalign = (\<lambda>oid. (4, True, CHR ''i'')),
       array_data_bytes = (\<lambda>oid elems. []),
       NumberToString = (\<lambda>d. ''0''),
       ObjectToString = (\<lambda>v. Some ''[object Object]''),
       JSON_Stringify = (\<lambda>v. Inr JSUndefined),
       JSON_Parse = (\<lambda>v. Inr JSUndefined),
       typed_array_numbers = (\<lambda>k buf n. []),
       strftime_gmtime = (\<lambda>t. ''1970-01-01T00:00:00''),
       Converter_ToDatum = (\<lambda>tupdesc v. Inl (js_error ''no converter'')),
       Converter_ToValue = (\<lambda>tupdesc d. Inl (js_error ''no converter'')) \<rparr>"

text \<open>
  The descriptor of a scalar type and of an array type, as \<^verbatim>\<open>plv8_fill_type\<close> leaves them
  (an array descriptor holds the type identifier and the layout of its elements), and of a
  domain that \<^verbatim>\<open>plv8_fill_type\<close> recognises as an external array.
\<close>

definition scalar_type :: "Oid \<Rightarrow> plv8_type" where
  "scalar_type oid =
     \<lparr> typid = oid, category = CHR ''N'', is_composite = False, len = 4, byval = True,
       align = CHR ''i'', ext_array = kExternalNone \<rparr>"

definition array_type :: "Oid \<Rightarrow> plv8_type" where
  "array_type elemid =
     \<lparr> typid = elemid, category = TYPCATEGORY_ARRAY, is_composite = False, len = 4, byval = True,
       align = CHR ''i'', ext_array = kExternalNone \<rparr>"

definition external_array_type :: "Oid \<Rightarrow> plv8_external_array_type \<Rightarrow> plv8_type" where
  "external_array_type oid kind =
     \<lparr> typid = oid, category = TYPCATEGORY_ARRAY, is_composite = False, len = - 1, byval = False,
       align = CHR ''i'', ext_array = kind \<rparr>"

section \<open>Theorems\<close>

lemmas kind_defs =
  IsUndefined_def IsNull_def IsBoolean_def IsNumber_def IsInt32_def IsUint32_def
  IsBigInt_def IsString_def IsDate_def IsArray_def IsObject_def IsTypedArray_def
  IsArrayBuffer_def typed_kind_in_def

lemmas oid_defs =
  InvalidOid_def BOOLOID_def BYTEAOID_def INT8OID_def INT2OID_def INT4OID_def TEXTOID_def
  OIDOID_def JSONOID_def XMLOID_def FLOAT4OID_def FLOAT8OID_def BPCHAROID_def VARCHAROID_def
  DATEOID_def TIMESTAMPOID_def TIMESTAMPTZOID_def NUMERICOID_def RECORDOID_def
  RECORDARRAYOID_def JSONBOID_def

subsection \<open>The build and the environment for concrete inputs\<close>

lemma utf8_env_encoding: "GetDatabaseEncoding utf8_env = PG_UTF8"
  by (simp add: utf8_env_def)

lemma pg11_build_fields:
  "PG_VERSION_NUM pg11_build = 110000" "JSONB_DIRECT_CONVERSION pg11_build"
  "\<not> BIGINT_GRACEFUL pg11_build" "\<not> CHECK_INTEGER_OVERFLOW pg11_build"
  "HAVE_INT64_TIMESTAMP pg11_build"
  by (simp_all add: pg11_build_def)

lemma scalar_type_fields:
  "typid (scalar_type oid) = oid" "category (scalar_type oid) = CHR ''N''"
  "\<not> is_composite (scalar_type oid)" "ext_array (scalar_type oid) = kExternalNone"
  by (simp_all add: scalar_type_def)


lemma external_array_type_fields:
  "typid (external_array_type oid kind) = oid"
  "category (external_array_type oid kind) = TYPCATEGORY_ARRAY"
  "\<not> is_composite (external_array_type oid kind)"
  "ext_array (external_array_type oid kind) = kind"
  by (simp_all add: external_array_type_def)

subsection \<open>Null values\<close>

text \<open>
  Claim C1.  Whatever the type descriptor, the scalar, the array and the composite
  encoder (and the entry point \<^verbatim>\<open>ToDatum\<close>) turn Undefined and Null into SQL NULL: the null
  flag is set and the datum is the zero word.  Whatever the type, \<^verbatim>\<open>ToValue\<close> turns a
  datum whose null flag is set into the value Null.
\<close>

theorem null_and_undefined_are_sql_null:
  "ToScalarDatum cfg env JSUndefined t = Inr (DatumWord 0, True)
   \<and> ToScalarDatum cfg env JSNull t = Inr (DatumWord 0, True)
   \<and> ToArrayDatum cfg env JSUndefined t = Inr (DatumWord 0, True)
   \<and> ToArrayDatum cfg env JSNull t = Inr (DatumWord 0, True)
   \<and> ToRecordDatum env JSUndefined t = Inr (DatumWord 0, True)
   \<and> ToRecordDatum env JSNull t = Inr (DatumWord 0, True)
   \<and> ToDatum cfg env JSUndefined t = Inr (DatumWord 0, True)
   \<and> ToDatum cfg env JSNull t = Inr (DatumWord 0, True)
   \<and> ToValue cfg env d True t = Inr JSNull"
  by (simp add: ToScalarDatum_def ToArrayDatum_def ToRecordDatum_def ToDatum_def kind_defs)

subsection \<open>Type inference\<close>

text \<open>
  Claim C10.  \<^verbatim>\<open>inferred_datum_type\<close> returns text for Undefined, Null and a String,
  boolean for a Boolean, the 32-bit integer type for a Number that is an Int32, the 64-bit
  integer type for a Number that is a Uint32 (and no Int32) and for a BigInt, double
  precision for every other Number, timestamp for a Date, and the invalid type identifier
  for every other kind of value, objects and arrays among them.
\<close>

theorem inferred_datum_type_by_kind:
  "inferred_datum_type JSUndefined = TEXTOID
   \<and> inferred_datum_type JSNull = TEXTOID
   \<and> inferred_datum_type (JSString s) = TEXTOID
   \<and> inferred_datum_type (JSBoolean b) = BOOLOID
   \<and> inferred_datum_type (JSNumber d) =
       (if is_int32 d then INT4OID else if is_uint32 d then INT8OID else FLOAT8OID)
   \<and> inferred_datum_type (JSBigInt i) = INT8OID
   \<and> inferred_datum_type (JSDate t) = TIMESTAMPOID
   \<and> inferred_datum_type (JSObject ps) = InvalidOid
   \<and> inferred_datum_type (JSArray xs) = InvalidOid
   \<and> inferred_datum_type (JSSymbol n) = InvalidOid
   \<and> inferred_datum_type (JSTypedArray k bs cnt fld) = InvalidOid
   \<and> inferred_datum_type (JSArrayBuffer bs) = InvalidOid
   \<and> inferred_datum_type (JSFunction n) = InvalidOid"
  by (simp add: inferred_datum_type_def kind_defs)

subsection \<open>Rounding to a double\<close>

lemma round_half_even_of_int: "round_half_even (of_int k) = k"
  by (simp add: round_half_even_def)

lemma round_half_even_error: "\<bar>of_int (round_half_even q) - q\<bar> \<le> 1 / 2"
proof -
  have "of_int \<lfloor>q\<rfloor> \<le> q" "q < of_int \<lfloor>q\<rfloor> + 1" by linarith+
  then show ?thesis
    by (auto simp add: round_half_even_def Let_def abs_le_iff)
qed

lemma trunc_of_int: "trunc (of_int k) = k"
  by (simp add: trunc_def)

lemma floor_log2_of_int: "0 < n \<Longrightarrow> floor_log2 (of_int n) = bitlen n - 1"
  by (simp add: floor_log2_def)

lemma bitlen_le_of_less: "0 < n \<Longrightarrow> n < 2 ^ k \<Longrightarrow> bitlen n \<le> int k"
  using bitlen_le_iff_power[of n "int k"] by simp

lemma floor_log2_le:
  assumes "0 < x" and "x \<le> 2 ^ k"
  shows "floor_log2 x \<le> int k"
proof (cases "1 \<le> x")
  case True
  have "rat_of_int \<lfloor>x\<rfloor> \<le> x" by (rule of_int_floor_le)
  also have "x \<le> 2 ^ k" by fact
  also have "(2::rat) ^ k = rat_of_int (2 ^ k)" by simp
  finally have "\<lfloor>x\<rfloor> \<le> 2 ^ k" by (simp only: of_int_le_iff)
  moreover have "(0::int) < 2 ^ k" by simp
  ultimately have "\<lfloor>x\<rfloor> < 2 * 2 ^ k" by linarith
  then have "\<lfloor>x\<rfloor> < 2 ^ nat (int k + 1)" by (simp add: nat_add_distrib)
  then have "bitlen \<lfloor>x\<rfloor> \<le> int k + 1" by (simp add: bitlen_le_iff_power)
  then show ?thesis using True by (simp add: floor_log2_def)
next
  case False
  then show ?thesis using bitlen_nonneg[of "\<lceil>1 / x\<rceil> - 1"] by (simp add: floor_log2_def)
qed

text \<open>An integer with at most 53 significant bits is a double: rounding leaves it alone.\<close>

lemma fl_round_scaled_int:
  assumes "\<bar>m\<bar> < 2 ^ 53"
  shows "dbl_round (of_int (m * 2 ^ j)) = of_int (m * 2 ^ j)"
proof (cases "m = 0")
  case True
  then show ?thesis by (simp add: fl_round_def)
next
  case False
  define n where "n = m * 2 ^ j"
  define a where "a = \<bar>n\<bar>"
  have apos: "0 < a" using False by (simp add: a_def n_def)
  have "a = \<bar>m\<bar> * 2 ^ j" by (simp add: a_def n_def abs_mult)
  also have "\<dots> < 2 ^ 53 * 2 ^ j" using assms by simp
  finally have "a < 2 ^ (53 + j)" by (simp add: power_add)
  then have bl: "bitlen a \<le> 53 + int j" using bitlen_le_of_less[OF apos] by fastforce
  have bl1: "1 \<le> bitlen a" using apos bitlen_eq_zero_iff[of a] bitlen_nonneg[of a] by linarith
  define e where "e = max (floor_log2 \<bar>rat_of_int n\<bar> - (int 53 - 1)) (- 1074)"
  have "\<bar>rat_of_int n\<bar> = of_int a" by (simp add: a_def)
  then have "floor_log2 \<bar>rat_of_int n\<bar> = bitlen a - 1" using floor_log2_of_int[OF apos] by simp
  then have e_eq: "e = bitlen a - 53" using bl1 by (simp add: e_def)
  have "\<exists>k. rat_of_int n / 2 powi e = of_int k"
  proof (cases "e \<le> 0")
    case True
    then have "rat_of_int n / 2 powi e = of_int (n * 2 ^ nat (- e))"
      by (simp add: power_int_def field_simps)
    then show ?thesis by blast
  next
    case False
    then have "nat e \<le> j" using e_eq bl by linarith
    then obtain i where j: "j = nat e + i" using le_Suc_ex by blast
    have "rat_of_int n / 2 powi e = of_int (m * 2 ^ i)"
      using False by (simp add: n_def j power_add power_int_def)
    then show ?thesis by blast
  qed
  then obtain k where k: "rat_of_int n / 2 powi e = of_int k" by blast
  then have "rat_of_int k * 2 powi e = of_int n" by (simp add: field_simps)
  moreover have "n \<noteq> 0" using False by (simp add: n_def)
  ultimately show ?thesis
    unfolding n_def[symmetric] fl_round_def Let_def e_def[symmetric]
    by (simp add: k round_half_even_of_int)
qed

lemma dbl_round_int: "\<bar>m\<bar> < 2 ^ 53 \<Longrightarrow> dbl_round (of_int m) = of_int m"
  using fl_round_scaled_int[of m 0] by simp

lemma to_double_scaled_int:
  assumes "\<bar>m\<bar> < 2 ^ 53" "j \<le> 10"
  shows "to_double (of_int (m * 2 ^ j)) = Finite (of_int (m * 2 ^ j))"
proof -
  have "\<bar>m * 2 ^ j\<bar> = \<bar>m\<bar> * 2 ^ j" by (simp add: abs_mult)
  also have "\<dots> < 2 ^ 53 * 2 ^ j" using assms by simp
  also have "\<dots> \<le> 2 ^ 53 * (2 ^ 10 :: int)"
    using power_increasing[OF assms(2), of "2::int"] by simp
  finally have b: "\<bar>m * 2 ^ j\<bar> < 2 ^ 63" by simp
  have "\<bar>rat_of_int (m * 2 ^ j)\<bar> < 2 ^ 1024"
  proof -
    have "\<bar>rat_of_int (m * 2 ^ j)\<bar> = rat_of_int \<bar>m * 2 ^ j\<bar>" by simp
    also have "\<dots> < rat_of_int (2 ^ 63)" using b by (simp only: of_int_less_iff)
    also have "\<dots> \<le> 2 ^ 1024" by simp
    finally show ?thesis .
  qed
  then show ?thesis
    unfolding to_double_def Let_def fl_round_scaled_int[OF assms(1)]
    by (simp add: abs_less_iff)
qed

lemma to_double_int: "\<bar>m\<bar> < 2 ^ 53 \<Longrightarrow> to_double (of_int m) = Finite (of_int m)"
  using to_double_scaled_int[of m 0] by simp

text \<open>Rounding moves a number by no more than its own size: no overflow below \<open>2 ^ 1023\<close>.\<close>

lemma fl_round_bound:
  assumes "\<bar>x\<bar> \<le> 2 ^ k"
  shows "\<bar>dbl_round x\<bar> \<le> 2 ^ (k + 1)"
proof (cases "x = 0")
  case True
  then show ?thesis by (simp add: fl_round_def)
next
  case False
  define e where "e = max (floor_log2 \<bar>x\<bar> - (int 53 - 1)) (- 1074)"
  have "floor_log2 \<bar>x\<bar> \<le> int k" using False assms by (intro floor_log2_le) simp_all
  then have ek: "e \<le> int k" by (simp add: e_def)
  have pe: "(0::rat) < 2 powi e" by simp
  have "(2::rat) powi e \<le> 2 powi int k" using ek by (intro power_int_increasing) simp_all
  then have pk: "(2::rat) powi e \<le> 2 ^ k" by simp
  define m where "m = round_half_even (x / 2 powi e)"
  have "\<bar>rat_of_int m - x / 2 powi e\<bar> \<le> 1 / 2" unfolding m_def by (rule round_half_even_error)
  then have "\<bar>rat_of_int m - x / 2 powi e\<bar> * 2 powi e \<le> 1 / 2 * 2 powi e"
    using pe by (intro mult_right_mono) simp_all
  moreover have "\<bar>rat_of_int m - x / 2 powi e\<bar> * 2 powi e = \<bar>rat_of_int m * 2 powi e - x\<bar>"
  proof -
    have "\<bar>rat_of_int m - x / 2 powi e\<bar> * 2 powi e = \<bar>(rat_of_int m - x / 2 powi e) * 2 powi e\<bar>"
      using pe by (simp add: abs_mult)
    also have "(rat_of_int m - x / 2 powi e) * 2 powi e = rat_of_int m * 2 powi e - x"
      using pe by (simp add: field_simps)
    finally show ?thesis .
  qed
  ultimately have "\<bar>rat_of_int m * 2 powi e - x\<bar> \<le> 1 / 2 * 2 powi e" by simp
  then have "\<bar>rat_of_int m * 2 powi e\<bar> \<le> \<bar>x\<bar> + 2 powi e" using pe by linarith
  also have "\<dots> \<le> 2 ^ k + 2 ^ k" using assms pk by linarith
  finally have "\<bar>rat_of_int m * 2 powi e\<bar> \<le> 2 ^ (k + 1)" by simp
  moreover have "dbl_round x = rat_of_int m * 2 powi e"
    using False by (simp add: fl_round_def Let_def e_def m_def)
  ultimately show ?thesis by simp
qed

lemma to_double_bounded:
  assumes "\<bar>x\<bar> \<le> 2 ^ k" and "k < 1023"
  shows "to_double x = Finite (dbl_round x)"
proof -
  have "\<bar>dbl_round x\<bar> \<le> 2 ^ (k + 1)" using assms(1) by (rule fl_round_bound)
  also have "(2::rat) ^ (k + 1) < 2 ^ 1024" using assms(2) by (intro power_strict_increasing) simp_all
  finally have "\<bar>dbl_round x\<bar> < 2 ^ 1024" .
  then show ?thesis by (simp add: to_double_def Let_def abs_less_iff)
qed

lemma sint_word_of_int_64:
  "- (2 ^ 63) \<le> i \<Longrightarrow> i < 2 ^ 63 \<Longrightarrow> sint (word_of_int i :: 64 word) = i"
  by (simp add: signed_of_int signed_take_bit_int_eq_self)

lemma sint64_abs: "\<bar>rat_of_int (sint (w :: 64 word))\<bar> \<le> 2 ^ 63"
proof -
  have "- (2 ^ 63) \<le> sint w" "sint w < 2 ^ 63"
    using sint_ge[of w] sint_lt[of w] by simp_all
  then have "\<bar>sint w\<bar> \<le> 2 ^ 63" by simp
  then have "rat_of_int \<bar>sint w\<bar> \<le> rat_of_int (2 ^ 63)" by (simp only: of_int_le_iff)
  then show ?thesis by simp
qed

lemma int64_to_double_small:
  "\<bar>sint v\<bar> < 2 ^ 53 \<Longrightarrow> int64_to_double v = Finite (of_int (sint v))"
  unfolding int64_to_double_def by (rule to_double_int)

subsection \<open>Timestamps\<close>

lemma epoch_shift_eq: "epoch_shift = Finite 946684800000"
proof -
  have a: "to_double (rat_of_int 10957) = Finite (of_int 10957)" by (rule to_double_int) simp
  have b: "to_double (rat_of_int 946684800000) = Finite (of_int 946684800000)" by (rule to_double_int) simp
  show ?thesis using a b
    by (simp add: epoch_shift_def POSTGRES_EPOCH_JDATE_def UNIX_EPOCH_JDATE_def dbl_op_def)
qed

lemma dbl_sub_shift: "dbl_sub (Finite r) epoch_shift = to_double (r - 946684800000)"
  by (simp add: dbl_sub_def epoch_shift_eq dbl_op_def)

lemma dbl_add_shift: "dbl_add (Finite r) epoch_shift = to_double (r + 946684800000)"
  by (simp add: dbl_add_def epoch_shift_eq dbl_op_def)

lemma EpochToTimestampTz_int:
  assumes "HAVE_INT64_TIMESTAMP cfg" and "\<bar>d\<bar> \<le> 8640000000000000"
  shows "EpochToTimestampTz cfg (Finite (of_int d))
           = Inr (DatumWord (word_of_int ((d - 946684800000) * 1000)))"
proof -
  define k where "k = d - 946684800000"
  have kb: "\<bar>k\<bar> < 2 ^ 53" using assms(2) by (simp add: k_def)
  have "rat_of_int d - 946684800000 = of_int k" by (simp add: k_def)
  then have s: "dbl_sub (Finite (of_int d)) epoch_shift = Finite (of_int k)"
    using to_double_int[OF kb] by (simp add: dbl_sub_shift)
  have r1: "- (2 ^ 63) \<le> k" "k < 2 ^ 63" using kb by simp_all
  have c: "double_to_int64 (Finite (of_int k)) = Some (word_of_int k)"
    using r1 by (simp add: double_to_int64_def trunc_of_int)
  have sk: "sint (word_of_int k :: 64 word) = k" using r1 by (rule sint_word_of_int_64)
  have r2: "- (2 ^ 63) \<le> k * 1000" "k * 1000 < 2 ^ 63" using assms(2) by (simp_all add: k_def)
  show ?thesis
    unfolding EpochToTimestampTz_def Let_def s
    using assms(1) r2 by (simp add: c sk k_def[symmetric])
qed

lemma TimestampTzToEpoch_int:
  assumes "\<bar>k\<bar> \<le> 72057594037927"
  shows "TimestampTzToEpoch (TimestampInt (word_of_int (k * 1000)))
           = Finite (of_int (k + 946684800000))"
proof -
  have r2: "- (2 ^ 63) \<le> k * 1000" "k * 1000 < 2 ^ 63" using assms by simp_all
  have sk: "sint (word_of_int (k * 1000) :: 64 word) = k * 1000" using r2 by (rule sint_word_of_int_64)
  have m: "\<bar>k * 125\<bar> < 2 ^ 53" using assms by simp
  have e: "k * 1000 = (k * 125) * 2 ^ 3" by simp
  have a: "to_double (of_int (k * 1000)) = Finite (of_int (k * 1000))"
    unfolding e by (rule to_double_scaled_int[OF m]) simp
  have kb: "\<bar>k\<bar> < 2 ^ 53" using assms by simp
  have b: "to_double (of_int k) = Finite (of_int k)" using kb by (rule to_double_int)
  have db: "\<bar>k + 946684800000\<bar> < 2 ^ 53" using assms by simp
  have c: "to_double (of_int (k + 946684800000)) = Finite (of_int (k + 946684800000))"
    using db by (rule to_double_int)
  have i: "int64_to_double (word_of_int (k * 1000)) = Finite (of_int (k * 1000))"
    unfolding int64_to_double_def sk by (rule a)
  have q: "dbl_op (\<lambda>r. r / 1000) (Finite (of_int (k * 1000))) = Finite (of_int k)"
    using b by (simp add: dbl_op_def)
  show ?thesis
    unfolding TimestampTzToEpoch_def Let_def TimestampTz.case i q dbl_add_shift
    using c by simp
qed

lemma TimeClip_int: "\<bar>d\<bar> \<le> 8640000000000000 \<Longrightarrow> TimeClip (Finite (of_int d)) = Finite (of_int d)"
proof -
  assume a: "\<bar>d\<bar> \<le> 8640000000000000"
  have "\<bar>rat_of_int d\<bar> = rat_of_int \<bar>d\<bar>" by simp
  also have "\<dots> \<le> rat_of_int 8640000000000000" using a by (simp only: of_int_le_iff)
  finally show ?thesis by (simp add: TimeClip_def trunc_of_int)
qed

lemma TimestampTzToEpoch_int64_formula:
  "TimestampTzToEpoch (TimestampInt tm) =
     Finite (dbl_round (dbl_round (dbl_round (of_int (sint tm)) / 1000) + 946684800000))"
proof -
  define a where "a = dbl_round (rat_of_int (sint tm))"
  define b where "b = dbl_round (a / 1000)"
  have 1: "to_double (of_int (sint tm)) = Finite a"
    unfolding a_def using sint64_abs[of tm] by (rule to_double_bounded) simp
  have ab: "\<bar>a\<bar> \<le> 2 ^ 64" unfolding a_def using fl_round_bound[OF sint64_abs[of tm]] by simp
  then have "\<bar>a / 1000\<bar> \<le> 2 ^ 64" by (simp add: abs_le_iff)
  then have 2: "to_double (a / 1000) = Finite b" and bb: "\<bar>b\<bar> \<le> 2 ^ 65"
    unfolding b_def using to_double_bounded[of "a / 1000" 64] fl_round_bound[of "a / 1000" 64]
    by simp_all
  have "\<bar>b + 946684800000\<bar> \<le> 2 ^ 66" using bb by (simp add: abs_le_iff)
  then have 3: "to_double (b + 946684800000) = Finite (dbl_round (b + 946684800000))"
    by (rule to_double_bounded) simp
  show ?thesis
    unfolding TimestampTzToEpoch_def Let_def TimestampTz.case int64_to_double_def 1
    by (simp add: dbl_op_def 2 dbl_add_shift 3 a_def[symmetric] b_def[symmetric] del: of_int_sint)
qed

lemma TimestampTzToEpoch_float_formula:
  assumes "\<bar>x\<bar> \<le> 2 ^ 62"
  shows "TimestampTzToEpoch (TimestampFloat (Finite x)) =
     Finite (dbl_round (dbl_round (x * 1000) + 946684800000))"
proof -
  define a where "a = dbl_round (x * 1000)"
  have "\<bar>x * 1000\<bar> \<le> 2 ^ 62 * 2 ^ 10" using assms by (simp add: abs_mult)
  then have xa: "\<bar>x * 1000\<bar> \<le> 2 ^ 72" by simp
  have 1: "to_double (x * 1000) = Finite a" unfolding a_def using xa by (rule to_double_bounded) simp
  have "\<bar>a\<bar> \<le> 2 ^ 73" unfolding a_def using fl_round_bound[OF xa] by simp
  then have "\<bar>a + 946684800000\<bar> \<le> 2 ^ 74" by (simp add: abs_le_iff)
  then have 2: "to_double (a + 946684800000) = Finite (dbl_round (a + 946684800000))"
    by (rule to_double_bounded) simp
  show ?thesis
    unfolding TimestampTzToEpoch_def Let_def TimestampTz.case
    by (simp add: dbl_op_def 1 dbl_add_shift 2 a_def[symmetric])
qed

lemma EpochToTimestampTz_float_formula:
  assumes "\<not> HAVE_INT64_TIMESTAMP cfg" and "\<bar>e\<bar> \<le> 2 ^ 62"
  shows "EpochToTimestampTz cfg (Finite e) =
     Inr (DatumFloat8 (Finite (dbl_round (dbl_round (e - 946684800000) / 1000))))"
proof -
  define a where "a = dbl_round (e - 946684800000)"
  have ea: "\<bar>e - 946684800000\<bar> \<le> 2 ^ 63" using assms(2) by (simp add: abs_le_iff)
  have 1: "to_double (e - 946684800000) = Finite a" unfolding a_def using ea by (rule to_double_bounded) simp
  have "\<bar>a\<bar> \<le> 2 ^ 64" unfolding a_def using fl_round_bound[OF ea] by simp
  then have "\<bar>a / 1000\<bar> \<le> 2 ^ 64" by (simp add: abs_le_iff)
  then have 2: "to_double (a / 1000) = Finite (dbl_round (a / 1000))"
    by (rule to_double_bounded) simp
  show ?thesis
    unfolding EpochToTimestampTz_def Let_def dbl_sub_shift 1
    using assms(1) by (simp add: dbl_op_def 2 a_def[symmetric])
qed

lemma ToScalarDatum_timestamp:
  assumes "typid t = TIMESTAMPOID \<or> typid t = TIMESTAMPTZOID"
    and "category t \<noteq> TYPCATEGORY_COMPOSITE"
  shows "ToScalarDatum cfg env (JSDate e) t = bind (EpochToTimestampTz cfg e) (\<lambda>d. Inr (d, False))"
  using assms
  by (auto simp add: ToScalarDatum_def ToScalarDatum_switch_def kind_defs oid_defs NumberValue_def)

lemma ToScalarValue_timestamp:
  assumes "typid t = TIMESTAMPOID \<or> typid t = TIMESTAMPTZOID" and "HAVE_INT64_TIMESTAMP cfg"
  shows "ToScalarValue cfg env (DatumWord w) isnull t = Inr (Date_New (TimestampTzToEpoch (TimestampInt w)))"
  using assms
  by (auto simp add: ToScalarValue_def Let_def oid_defs DatumGetTimestampTz_def)

text \<open>
  Claim C5.  The two epochs are 10957 days apart, and the shift is that number of days in
  milliseconds.  A timestamp of \<open>tm\<close> microseconds decodes to \<open>tm / 1000\<close> plus the shift,
  and a timestamp of \<open>x\<close> seconds to \<open>x * 1000\<close> plus the shift, in double arithmetic:
  every operation is rounded to a double (\<open>dbl_round\<close>) and none overflows.  Encoding is
  the inverse formula: from the time value \<open>d\<close> of a Date, an integer of at most 8.64e15
  in size, the shift is taken and the difference multiplied by 1000, in integers and
  without wrap-around, for microseconds; for seconds the difference is divided by 1000
  in double arithmetic.
\<close>

theorem timestamp_epoch_conversion:
  "POSTGRES_EPOCH_JDATE - UNIX_EPOCH_JDATE = 10957
   \<and> epoch_shift = Finite (of_int ((POSTGRES_EPOCH_JDATE - UNIX_EPOCH_JDATE) * 86400000))
   \<and> TimestampTzToEpoch (TimestampInt tm) =
       Finite (dbl_round (dbl_round (dbl_round (of_int (sint tm)) / 1000) + 946684800000))
   \<and> (\<bar>x\<bar> \<le> 2 ^ 62 \<longrightarrow>
        TimestampTzToEpoch (TimestampFloat (Finite x)) =
          Finite (dbl_round (dbl_round (x * 1000) + 946684800000)))
   \<and> (HAVE_INT64_TIMESTAMP cfg \<and> \<bar>d\<bar> \<le> 8640000000000000 \<longrightarrow>
        EpochToTimestampTz cfg (Finite (of_int d))
          = Inr (DatumWord (word_of_int ((d - 946684800000) * 1000)))
        \<and> sint (word_of_int ((d - 946684800000) * 1000) :: 64 word) = (d - 946684800000) * 1000)
   \<and> (\<not> HAVE_INT64_TIMESTAMP cfg \<and> \<bar>e\<bar> \<le> 2 ^ 62 \<longrightarrow>
        EpochToTimestampTz cfg (Finite e)
          = Inr (DatumFloat8 (Finite (dbl_round (dbl_round (e - 946684800000) / 1000)))))"
proof -
  have 1: "POSTGRES_EPOCH_JDATE - UNIX_EPOCH_JDATE = 10957"
    by (simp add: POSTGRES_EPOCH_JDATE_def UNIX_EPOCH_JDATE_def)
  have 2: "epoch_shift = Finite (of_int ((POSTGRES_EPOCH_JDATE - UNIX_EPOCH_JDATE) * 86400000))"
    by (simp add: epoch_shift_eq 1)
  have 5: "sint (word_of_int ((d - 946684800000) * 1000) :: 64 word) = (d - 946684800000) * 1000"
    if "\<bar>d\<bar> \<le> 8640000000000000"
    using that by (intro sint_word_of_int_64) simp_all
  show ?thesis
    using 1 2 5 TimestampTzToEpoch_int64_formula TimestampTzToEpoch_float_formula
      EpochToTimestampTz_int EpochToTimestampTz_float_formula
    by blast
qed

theorem timestamp_epoch_conversion_witness:
  "TimestampTzToEpoch (TimestampInt 86400000000) = Finite 946771200000
   \<and> \<bar>86400 :: rat\<bar> \<le> 2 ^ 62
   \<and> TimestampTzToEpoch (TimestampFloat (Finite 86400)) = Finite 946771200000
   \<and> HAVE_INT64_TIMESTAMP pg11_build \<and> \<bar>946771200000 :: int\<bar> \<le> 8640000000000000
   \<and> EpochToTimestampTz pg11_build (Finite 946771200000) = Inr (DatumWord 86400000000)
   \<and> \<not> HAVE_INT64_TIMESTAMP (pg11_build \<lparr> HAVE_INT64_TIMESTAMP := False \<rparr>)
   \<and> EpochToTimestampTz (pg11_build \<lparr> HAVE_INT64_TIMESTAMP := False \<rparr>) (Finite 946771200000)
       = Inr (DatumFloat8 (Finite 86400))"
proof -
  have r1: "dbl_round 86400000000 = 86400000000" using dbl_round_int[of 86400000000] by simp
  have r2: "dbl_round 86400000 = 86400000" using dbl_round_int[of 86400000] by simp
  have r3: "dbl_round 946771200000 = 946771200000" using dbl_round_int[of 946771200000] by simp
  have r4: "dbl_round 86400 = 86400" using dbl_round_int[of 86400] by simp
  have h: "HAVE_INT64_TIMESTAMP pg11_build" by (simp add: pg11_build_fields)
  show ?thesis
    using timestamp_epoch_conversion[of 86400000000 86400 pg11_build 946771200000 946771200000]
      timestamp_epoch_conversion[of 86400000000 86400
        "pg11_build \<lparr> HAVE_INT64_TIMESTAMP := False \<rparr>" 946771200000 946771200000]
    by (simp add: r1 r2 r3 r4 h)
qed

text \<open>
  Claim C6, as amended.  With integer timestamps, a Date whose time value \<open>d\<close> lies within
  72057594037927 milliseconds (\<open>2 ^ 56\<close> microseconds, about 2283 years) of 2000-01-01
  encodes as a timestamp of \<open>(d - 946684800000) * 1000\<close> microseconds, and that
  timestamp decodes to the Date of time value \<open>d\<close>.
\<close>

theorem timestamp_round_trip:
  assumes "HAVE_INT64_TIMESTAMP cfg"
    and "typid t = TIMESTAMPOID \<or> typid t = TIMESTAMPTZOID"
    and "category t \<noteq> TYPCATEGORY_COMPOSITE"
    and "\<bar>d - 946684800000\<bar> \<le> 72057594037927"
  shows "ToScalarDatum cfg env (JSDate (Finite (of_int d))) t
           = Inr (DatumWord (word_of_int ((d - 946684800000) * 1000)), False)
         \<and> ToScalarValue cfg env (DatumWord (word_of_int ((d - 946684800000) * 1000))) False t
           = Inr (JSDate (Finite (of_int d)))"
proof -
  have db: "\<bar>d\<bar> \<le> 8640000000000000" using assms(4) by linarith
  have enc: "EpochToTimestampTz cfg (Finite (of_int d))
               = Inr (DatumWord (word_of_int ((d - 946684800000) * 1000)))"
    using assms(1) db by (rule EpochToTimestampTz_int)
  have dec: "TimestampTzToEpoch (TimestampInt (word_of_int ((d - 946684800000) * 1000)))
               = Finite (of_int d)"
    using TimestampTzToEpoch_int[OF assms(4)] by simp
  show ?thesis
    unfolding ToScalarDatum_timestamp[OF assms(2,3)] ToScalarValue_timestamp[OF assms(2,1)] enc dec
    by (simp add: bind_def Date_New_def TimeClip_int[OF db])
qed

theorem timestamp_round_trip_witness:
  "HAVE_INT64_TIMESTAMP pg11_build
   \<and> ToScalarDatum pg11_build utf8_env (JSDate (Finite 1577836800000)) (scalar_type TIMESTAMPOID)
       = Inr (DatumWord 631152000000000, False)
   \<and> ToScalarValue pg11_build utf8_env (DatumWord 631152000000000) False (scalar_type TIMESTAMPOID)
       = Inr (JSDate (Finite 1577836800000))"
  using timestamp_round_trip[of pg11_build "scalar_type TIMESTAMPOID" 1577836800000 utf8_env]
  by (simp add: pg11_build_fields scalar_type_fields TYPCATEGORY_COMPOSITE_def)

text \<open>
  The claim as stated fails beyond that range.  The Date 5000-01-01T00:00:00.001Z has the
  time value 95617584000001.  Its timestamp, 94670899200001000 microseconds, is no double:
  the conversion to a double gives 94670899200000992, the division by 1000 and the
  addition of the shift give 95617584000000.984375, and \<^verbatim>\<open>Date::New\<close> keeps the integer part.
  The Date that comes back is one millisecond earlier.
\<close>

lemma rounding_at_year_5000:
  "dbl_round 94670899200001000 = 94670899200000992"
  "dbl_round (11833862400000124 / 125) = 6058937548800063 / 64"
  "dbl_round (6119525376000063 / 64) = 6119525376000063 / 64"
  by code_simp+

theorem timestamp_round_trip_counterexample:
  "ToScalarDatum pg11_build utf8_env (JSDate (Finite 95617584000001)) (scalar_type TIMESTAMPOID)
     = Inr (DatumWord 94670899200001000, False)
   \<and> ToScalarValue pg11_build utf8_env (DatumWord 94670899200001000) False
       (scalar_type TIMESTAMPOID)
     = Inr (JSDate (Finite 95617584000000))"
proof -
  have t: "typid (scalar_type TIMESTAMPOID) = TIMESTAMPOID \<or> typid (scalar_type TIMESTAMPOID) = TIMESTAMPTZOID"
    by (simp add: scalar_type_fields)
  have c: "category (scalar_type TIMESTAMPOID) \<noteq> TYPCATEGORY_COMPOSITE"
    by (simp add: scalar_type_fields TYPCATEGORY_COMPOSITE_def)
  have h: "HAVE_INT64_TIMESTAMP pg11_build" by (simp add: pg11_build_fields)
  have enc: "EpochToTimestampTz pg11_build (Finite 95617584000001) = Inr (DatumWord 94670899200001000)"
    using EpochToTimestampTz_int[OF h, of 95617584000001] by simp
  have dec: "TimestampTzToEpoch (TimestampInt 94670899200001000) = Finite (6119525376000063 / 64)"
    unfolding TimestampTzToEpoch_int64_formula by (simp add: rounding_at_year_5000)
  have clip: "TimeClip (Finite (6119525376000063 / 64)) = Finite 95617584000000"
    by code_simp
  show ?thesis
    unfolding ToScalarDatum_timestamp[OF t c] ToScalarValue_timestamp[OF t h] enc dec
    by (simp add: bind_def Date_New_def clip)
qed

subsection \<open>64-bit integers\<close>

text \<open>
  What \<^verbatim>\<open>ToScalarValue\<close> does for the 64-bit integer type: the BigInt of the value; with
  \<^verbatim>\<open>BIGINT_GRACEFUL\<close> the Number of the value when it is an \<^verbatim>\<open>int32\<close>, and otherwise the
  String of its decimal digits, brought to UTF-8 from the encoding of the database, when
  the digits and the sign are fewer than 20 characters.
\<close>

lemma int8_decode:
  assumes "typid t = INT8OID"
  shows "ToScalarValue cfg env (Int64GetDatum v) isnull t =
     (if \<not> BIGINT_GRACEFUL cfg then Inr (JSBigInt (sint v))
      else if INT32_MIN \<le> sint v \<and> sint v \<le> INT32_MAX then Inr (JSNumber (Finite (of_int (sint v))))
      else if 20 \<le> length (int_to_string (sint v)) then Inl (undefined_behaviour ''sprintf'')
      else bind (pg_try (pg_do_encoding_conversion env (int_to_string (sint v))
                           (GetDatabaseEncoding env) PG_UTF8))
             (\<lambda>utf8. Inr (JSString utf8)))"
proof -
  have "int64_to_double v = Finite (of_int (sint v))"
    if "INT32_MIN \<le> sint v \<and> sint v \<le> INT32_MAX"
  proof (rule int64_to_double_small)
    have "\<bar>sint v\<bar> < 9007199254740992"
      using that unfolding INT32_MIN_def INT32_MAX_def by linarith
    then show "\<bar>sint v\<bar> < 2 ^ 53" by simp
  qed
  then show ?thesis
    using assms
    by (auto simp add: ToScalarValue_def Let_def Int64GetDatum_def with_word_def oid_defs
        ToString_cstr_def simp del: of_int_sint)
qed

lemma nat_to_string_length: "10 ^ k \<le> n \<Longrightarrow> k < length (nat_to_string n)"
proof (induction k arbitrary: n)
  case 0
  show ?case by (subst nat_to_string.simps) simp
next
  case (Suc k)
  then have "10 ^ k \<le> n div 10" by simp
  then have "k < length (nat_to_string (n div 10))" by (rule Suc.IH)
  moreover have "\<not> n < 10"
  proof -
    have a: "(1::nat) \<le> 10 ^ k" by simp
    have b: "10 * 10 ^ k \<le> n" using Suc.prems by simp
    show ?thesis using a b by linarith
  qed
  ultimately show ?case by (subst nat_to_string.simps) simp
qed

text \<open>
  Claim C7 fails on the code for the values of 19 digits below zero.  In a build with
  \<^verbatim>\<open>BIGINT_GRACEFUL\<close>, a 64-bit integer of at most \<open>- (10 ^ 18)\<close> is not decoded to a String:
  its sign and digits are 20 characters, and \<^verbatim>\<open>sprintf\<close> writes them and the terminator
  into the 20 bytes of \<^verbatim>\<open>str\<close>.
\<close>

theorem int8_graceful_overflows_buffer:
  assumes "BIGINT_GRACEFUL cfg" and "typid t = INT8OID" and "sint v \<le> - (10 ^ 18)"
  shows "ToScalarValue cfg env (Int64GetDatum v) isnull t = Inl (undefined_behaviour ''sprintf'')"
proof -
  have "(10::nat) ^ 18 \<le> nat (- sint v)" using assms(3) by simp
  then have "18 < length (nat_to_string (nat (- sint v)))" by (rule nat_to_string_length)
  moreover have "sint v < 0" using assms(3) by simp
  ultimately have "20 \<le> length (int_to_string (sint v))" by (simp add: int_to_string_def)
  moreover have "\<not> (INT32_MIN \<le> sint v \<and> sint v \<le> INT32_MAX)"
    using assms(3) by (simp add: INT32_MIN_def)
  ultimately show ?thesis
    unfolding int8_decode[OF assms(2)] using assms(1) by simp
qed

theorem int8_graceful_overflows_buffer_witness:
  "BIGINT_GRACEFUL (pg11_build \<lparr> BIGINT_GRACEFUL := True \<rparr>)
   \<and> typid (scalar_type INT8OID) = INT8OID
   \<and> sint (- 9223372036854775808 :: 64 word) \<le> - (10 ^ 18)
   \<and> ToScalarValue (pg11_build \<lparr> BIGINT_GRACEFUL := True \<rparr>) utf8_env
        (Int64GetDatum (- 9223372036854775808)) False (scalar_type INT8OID)
      = Inl (undefined_behaviour ''sprintf'')"
proof -
  have g: "BIGINT_GRACEFUL (pg11_build \<lparr> BIGINT_GRACEFUL := True \<rparr>)" by simp
  have t: "typid (scalar_type INT8OID) = INT8OID" by (simp add: scalar_type_fields)
  have s: "sint (- 9223372036854775808 :: 64 word) \<le> - (10 ^ 18)" by simp
  show ?thesis
    using g t s int8_graceful_overflows_buffer[OF g t s, of utf8_env False] by blast
qed

text \<open>Elsewhere the decoder gives the BigInt, the Number and the String of the claim.\<close>

lemma nat_to_string_2147483648: "nat_to_string 2147483648 = ''2147483648''"
  by (simp add: nat_to_string.simps digit_char_def)

lemma int8_decode_examples:
  "ToScalarValue pg11_build utf8_env (Int64GetDatum 5) False (scalar_type INT8OID)
       = Inr (JSBigInt 5)
   \<and> ToScalarValue (pg11_build \<lparr> BIGINT_GRACEFUL := True \<rparr>) utf8_env (Int64GetDatum 5)
         False (scalar_type INT8OID) = Inr (JSNumber (Finite 5))
   \<and> ToScalarValue (pg11_build \<lparr> BIGINT_GRACEFUL := True \<rparr>) utf8_env
         (Int64GetDatum 2147483648) False (scalar_type INT8OID) = Inr (JSString ''2147483648'')"
proof -
  have t: "typid (scalar_type INT8OID) = INT8OID" by (simp add: scalar_type_def)
  have s: "int_to_string 2147483648 = ''2147483648''"
    using nat_to_string_2147483648 by (simp add: int_to_string_def)
  show ?thesis
    using int8_decode[OF t, of pg11_build utf8_env 5 False]
      int8_decode[OF t, of "pg11_build \<lparr> BIGINT_GRACEFUL := True \<rparr>" utf8_env 5 False]
      int8_decode[OF t, of "pg11_build \<lparr> BIGINT_GRACEFUL := True \<rparr>" utf8_env 2147483648 False]
    by (simp add: t s pg11_build_fields utf8_env_encoding INT32_MIN_def INT32_MAX_def
        pg_do_encoding_conversion_def pg_try_def bind_def)
qed

subsection \<open>External arrays\<close>

lemma external_data_bytes:
  "\<not> ARR_HASNULL a \<Longrightarrow> ARR_NDIM a = 1 \<Longrightarrow>
   ARR_SIZE a - ARR_OVERHEAD_NONULLS 1 = int (length (ARR_DATA a))"
  by (simp add: ARR_SIZE_def ARR_OVERHEAD_NONULLS_def MAXALIGN_def)

lemma memcpy_whole: "memcpy (replicate (length src) 0) src (int (length src)) = src"
  by (simp add: memcpy_def)

lemma CreateExternalArray_whole:
  "CreateExternalArray src kind (int (length src)) d =
     (case external_array_view kind (int (length src)) of
        None \<Rightarrow> Inl (js_error ''unexpected array type'')
      | Some (k, n) \<Rightarrow> Inr (JSTypedArray k src n (Some d)))"
  by (simp add: CreateExternalArray_def ArrayBuffer_New_def memcpy_whole split: option.splits)

text \<open>
  What \<^verbatim>\<open>ToArrayValue\<close> does for an external array type: an array with a null bitmap or
  with more than one dimension is refused; an array of one dimension becomes the typed
  array over a copy of its data area, for every kind but \<^verbatim>\<open>kExternalInt64Array\<close>.
\<close>

lemma external_array_decode:
  assumes "ext_array t \<noteq> kExternalNone"
  shows "ToArrayValue cfg env (DatumArray a) isnull t =
     (if ARR_HASNULL a \<or> 1 < ARR_NDIM a then
        Inl (js_error ''NULL element, or multi-dimension array not allowed in external array type'')
      else if ARR_NDIM a = 1 then
        (case external_array_view (ext_array t) (int (length (ARR_DATA a))) of
           None \<Rightarrow> Inl (js_error ''unexpected array type'')
         | Some (k, n) \<Rightarrow> Inr (JSTypedArray k (ARR_DATA a) n (Some (DatumArray a))))
      else CreateExternalArray (ARR_DATA a) (ext_array t)
             (ARR_SIZE a - ARR_OVERHEAD_NONULLS 1) (DatumArray a))"
  using assms by (auto simp add: external_data_bytes CreateExternalArray_whole)

lemma external_array_view_Some:
  "kind \<noteq> kExternalNone \<Longrightarrow> kind \<noteq> kExternalInt64Array \<Longrightarrow>
   \<exists>k n. external_array_view kind sz = Some (k, n)"
  by (cases kind) (simp_all add: external_array_view_def)

lemma external_array_typed_buffer:
  assumes "ext_array t \<noteq> kExternalNone" and "ext_array t \<noteq> kExternalInt64Array"
    and "\<not> ARR_HASNULL a" and "ARR_NDIM a = 1"
  shows "\<exists>k n. ToArrayValue cfg env (DatumArray a) isnull t
                 = Inr (JSTypedArray k (ARR_DATA a) n (Some (DatumArray a)))"
proof -
  obtain k n where "external_array_view (ext_array t) (int (length (ARR_DATA a))) = Some (k, n)"
    using external_array_view_Some[OF assms(1,2)] by blast
  then show ?thesis
    unfolding external_array_decode[OF assms(1)] using assms(3,4) by simp
qed

text \<open>
  Claim C3 fails on the code for the 64-bit signed kind.  Under the domain
  \<^verbatim>\<open>plv8_int8array\<close>, the array \<open>{1,2}\<close> (one dimension, no null bitmap, 16 bytes of data)
  is not decoded to a typed array: \<^verbatim>\<open>ToValue\<close> raises ``unexpected array type''.
\<close>

theorem external_int64_array_is_not_decoded:
  "ToValue pg11_build utf8_env
     (DatumArray (ArrayType 1 [2] [1] False INT8OID [(DatumWord 1, False), (DatumWord 2, False)]
                    [1, 0, 0, 0, 0, 0, 0, 0, 2, 0, 0, 0, 0, 0, 0, 0]))
     False (external_array_type 16400 kExternalInt64Array)
   = Inl (js_error ''unexpected array type'')"
  by (simp add: external_array_type_fields ARR_SIZE_def ARR_OVERHEAD_NONULLS_def MAXALIGN_def
      CreateExternalArray_def ArrayBuffer_New_def external_array_view_def)




subsection \<open>The lexical cast\<close>




text \<open>
  Where the claim holds: for the numeric, boolean and date types, a value that is neither
  Undefined nor Null and not of the kind the arm of the type tests for leaves the
  \<^verbatim>\<open>switch\<close> and reaches the lexical cast, which raises an error exactly when the
  conversion of the string to the encoding of the database or the input function of the
  type does.
\<close>

lemma switch_boolean_mismatch:
  "\<not> IsBoolean v \<Longrightarrow> ToScalarDatum_switch cfg env v BOOLOID = None"
  by (simp add: ToScalarDatum_switch_def oid_defs)

lemma switch_number_mismatch:
  assumes "\<not> IsNumber v"
  shows "ToScalarDatum_switch cfg env v OIDOID = None"
    and "ToScalarDatum_switch cfg env v INT2OID = None"
    and "ToScalarDatum_switch cfg env v INT4OID = None"
    and "ToScalarDatum_switch cfg env v FLOAT4OID = None"
    and "ToScalarDatum_switch cfg env v FLOAT8OID = None"
  using assms by (simp_all add: ToScalarDatum_switch_def oid_defs)

lemma switch_bigint_mismatch:
  assumes "\<not> IsNumber v" and "\<not> IsBigInt v"
  shows "ToScalarDatum_switch cfg env v INT8OID = None"
    and "ToScalarDatum_switch cfg env v NUMERICOID = None"
  using assms
  by (cases v; simp add: ToScalarDatum_switch_def oid_defs IsNumber_def IsBigInt_def)+

lemma switch_date_mismatch:
  assumes "\<not> IsDate v"
  shows "ToScalarDatum_switch cfg env v DATEOID = None"
    and "ToScalarDatum_switch cfg env v TIMESTAMPOID = None"
    and "ToScalarDatum_switch cfg env v TIMESTAMPTZOID = None"
  using assms by (simp_all add: ToScalarDatum_switch_def oid_defs)

lemma ToScalarDatum_mismatch_is_lexical_cast:
  assumes "category t \<noteq> TYPCATEGORY_COMPOSITE" and "\<not> IsUndefined v" and "\<not> IsNull v"
    and "(typid t = BOOLOID \<and> \<not> IsBoolean v)
         \<or> (typid t \<in> {OIDOID, INT2OID, INT4OID, FLOAT4OID, FLOAT8OID} \<and> \<not> IsNumber v)
         \<or> (typid t \<in> {INT8OID, NUMERICOID} \<and> \<not> IsNumber v \<and> \<not> IsBigInt v)
         \<or> (typid t \<in> {DATEOID, TIMESTAMPOID, TIMESTAMPTZOID} \<and> \<not> IsDate v)"
  shows "ToScalarDatum cfg env v t = lexical_cast env v t"
proof -
  consider (b) "typid t = BOOLOID" "\<not> IsBoolean v"
    | (n) "typid t \<in> {OIDOID, INT2OID, INT4OID, FLOAT4OID, FLOAT8OID}" "\<not> IsNumber v"
    | (i) "typid t \<in> {INT8OID, NUMERICOID}" "\<not> IsNumber v" "\<not> IsBigInt v"
    | (d) "typid t \<in> {DATEOID, TIMESTAMPOID, TIMESTAMPTZOID}" "\<not> IsDate v"
    using assms(4) by blast
  then have "ToScalarDatum_switch cfg env v (typid t) = None"
  proof cases
    case b
    then show ?thesis by (simp add: switch_boolean_mismatch)
  next
    case n
    from n(1) switch_number_mismatch[OF n(2), of cfg env] show ?thesis by auto
  next
    case i
    from i(1) switch_bigint_mismatch[OF i(2) i(3), of cfg env] show ?thesis by auto
  next
    case d
    from d(1) switch_date_mismatch[OF d(2), of cfg env] show ?thesis by auto
  qed
  then show ?thesis
    using assms(1-3) by (simp add: ToScalarDatum_def)
qed

lemma lexical_cast_error_iff:
  "(\<exists>e. lexical_cast env v t = Inl e) \<longleftrightarrow>
     (\<exists>e. CString env v = Inl e)
     \<or> (\<exists>str m. CString env v = Inr str \<and> InputFunctionCall env (typid t) str = Inl m)"
  by (auto simp add: lexical_cast_def bind_def pg_try_def split: sum.splits)







subsection \<open>Arrays\<close>


lemma collect_Inr_list_all2:
  "collect (map f xs) = Inr ys \<Longrightarrow> list_all2 (\<lambda>x y. f x = Inr y) xs ys"
  by (induction xs arbitrary: ys) (auto split: sum.splits)











subsection \<open>Objects as JSONB\<close>



















end
